theory Spec2Isabelle
  imports Complex_Main "HOL-Library.Word"
begin

section \<open>Python values shared by the trainer and the painter\<close>

text \<open>
  Exceptions are values. The first group is what the modelled source can raise; the last
  two constructors are names of the specification's error taxonomy, which no line of the
  source raises (they exist so that statements about them can be written down).
\<close>

datatype py_exception =
    AssertionError
  | IndexError
  | ValueError
  | TypeError
  | RuntimeError
  | FileNotFoundError
  | OSError
  | ShapeError
  | NameEncodingError

text \<open>Sequencing of two steps, the first of which may raise.\<close>

definition and_then :: "py_exception + 'a \<Rightarrow> ('a \<Rightarrow> py_exception + 'b) \<Rightarrow> py_exception + 'b" where
  "and_then r k = (case r of Inl e \<Rightarrow> Inl e | Inr v \<Rightarrow> k v)"

text \<open>
  \<^verbatim>\<open>xs[i]\<close> for a Python list: a negative index counts from the end, and an index
  outside the list raises IndexError.
\<close>

definition py_getitem :: "'a list \<Rightarrow> int \<Rightarrow> py_exception + 'a" where
  "py_getitem xs i =
     (if 0 \<le> i \<and> i < int (length xs) then Inr (xs ! nat i)
      else if i < 0 \<and> - int (length xs) \<le> i then Inr (xs ! nat (int (length xs) + i))
      else Inl IndexError)"

text \<open>
  \<^verbatim>\<open>s.replace(old, new)\<close> for a non-empty \<open>old\<close> (the only call of the source has
  \<open>old = '.nii.gz'\<close>): every occurrence, scanning from the left, without overlap.
\<close>

fun str_replace :: "string \<Rightarrow> string \<Rightarrow> string \<Rightarrow> string" where
  "str_replace old new [] = []"
| "str_replace old new (c # cs) =
     (if take (length old) (c # cs) = old
      then new @ str_replace old new (drop (length old - 1) cs)
      else c # str_replace old new cs)"

text \<open>\<^verbatim>\<open>s.split(sep)\<close> for a separator of one character: empty fields are kept.\<close>

fun str_split :: "char \<Rightarrow> string \<Rightarrow> string list" where
  "str_split sep [] = [[]]"
| "str_split sep (c # cs) =
     (if c = sep then [] # str_split sep cs
      else (case str_split sep cs of
              [] \<Rightarrow> [[c]]
            | t # ts \<Rightarrow> (c # t) # ts))"

text \<open>
  \<^verbatim>\<open>int(s)\<close> for a string of ASCII characters without underscores (the tokens come out of
  a split at underscores): surrounding white space (tab, line feed, vertical tab, form
  feed, carriage return, space) is dropped, one sign is allowed, and what remains must be
  one or more decimal digits; anything else raises ValueError.
\<close>

definition py_isspace :: "char \<Rightarrow> bool" where
  "py_isspace c = (of_char c \<in> {9, 10, 11, 12, 13, 32 :: nat})"

definition py_strip :: "string \<Rightarrow> string" where
  "py_strip s = rev (dropWhile py_isspace (rev (dropWhile py_isspace s)))"

definition is_digit :: "char \<Rightarrow> bool" where
  "is_digit c = (48 \<le> (of_char c :: nat) \<and> (of_char c :: nat) \<le> 57)"

definition digit_val :: "char \<Rightarrow> nat" where
  "digit_val c = of_char c - 48"

definition digits_val :: "string \<Rightarrow> nat" where
  "digits_val ds = foldl (\<lambda>acc c. 10 * acc + digit_val c) 0 ds"

definition parse_digits :: "string \<Rightarrow> py_exception + nat" where
  "parse_digits ds = (if ds \<noteq> [] \<and> list_all is_digit ds then Inr (digits_val ds) else Inl ValueError)"

definition py_int :: "string \<Rightarrow> py_exception + int" where
  "py_int s =
     (case py_strip s of
        [] \<Rightarrow> Inl ValueError
      | c # cs \<Rightarrow>
          if c = CHR ''-'' then and_then (parse_digits cs) (\<lambda>n. Inr (- int n))
          else if c = CHR ''+'' then and_then (parse_digits cs) (\<lambda>n. Inr (int n))
          else and_then (parse_digits (c # cs)) (\<lambda>n. Inr (int n)))"

section \<open>Volumes\<close>

text \<open>
  A three-dimensional numpy array with axes (depth, height, width): its shape and its
  voxels. \<open>vox v z y x\<close> is meaningful for \<open>z < vd v\<close>, \<open>y < vh v\<close>, \<open>x < vw v\<close>.
\<close>

record 'a vol =
  vd :: nat
  vh :: nat
  vw :: nat
  vox :: "nat \<Rightarrow> nat \<Rightarrow> nat \<Rightarrow> 'a"

type_synonym shape3 = "int \<times> int \<times> int"

definition vol_shape :: "'a vol \<Rightarrow> shape3" where
  "vol_shape v = (int (vd v), int (vh v), int (vw v))"

text \<open>
  The bounds of \<^verbatim>\<open>a[start:stop]\<close> on an axis of length \<open>n\<close>: a negative bound counts from
  the end, both are clamped into the axis, and the result is the offset of the first
  element taken and the number of elements taken.
\<close>

definition slice_norm :: "nat \<Rightarrow> int \<Rightarrow> nat" where
  "slice_norm n i = (if i < 0 then nat (max 0 (int n + i)) else min n (nat i))"

definition slice_bounds :: "nat \<Rightarrow> int \<Rightarrow> int \<Rightarrow> nat \<times> nat" where
  "slice_bounds n start stop = (slice_norm n start, slice_norm n stop - slice_norm n start)"

definition slice3 :: "'a vol \<Rightarrow> int \<times> int \<Rightarrow> int \<times> int \<Rightarrow> int \<times> int \<Rightarrow> 'a vol" where
  "slice3 v zr yr xr =
     (let (oz, nz) = slice_bounds (vd v) (fst zr) (snd zr);
          (oy, ny) = slice_bounds (vh v) (fst yr) (snd yr);
          (ox, nx) = slice_bounds (vw v) (fst xr) (snd xr)
      in \<lparr>vd = nz, vh = ny, vw = nx, vox = (\<lambda>z y x. vox v (oz + z) (oy + y) (ox + x))\<rparr>)"

definition vol_map2 :: "('a \<Rightarrow> 'b \<Rightarrow> 'c) \<Rightarrow> 'a vol \<Rightarrow> 'b vol \<Rightarrow> 'c vol" where
  "vol_map2 f a b =
     \<lparr>vd = vd a, vh = vh a, vw = vw a, vox = (\<lambda>z y x. f (vox a z y x) (vox b z y x))\<rparr>"

definition zeros_like :: "real vol \<Rightarrow> real vol" where
  "zeros_like t = \<lparr>vd = vd t, vh = vh t, vw = vw t, vox = (\<lambda>z y x. 0)\<rparr>"

section \<open>The trainer: tiled inference (model\_utils.py)\<close>

text \<open>
  A patch coordinate is the triple \<open>(x, y, z)\<close> the source unpacks. The network sees a
  batch of tiles, each with its channels, and returns a tensor of shape
  (batch, channels, depth, height, width): \<open>t_vol t b c\<close> is channel \<open>c\<close> of batch
  element \<open>b\<close>. Voxel values are real numbers (floating point is not modelled).
\<close>

type_synonym coord = "int \<times> int \<times> int"

record tensor5 =
  t_batch :: nat
  t_chan :: nat
  t_vol :: "nat \<Rightarrow> nat \<Rightarrow> real vol"

type_synonym cnn = "real vol list list \<Rightarrow> tensor5"

text \<open>
  What model\_utils.py calls but this repository's sources do not contain: the helpers
  of the trainer's im\_utils module (\<open>get_coords_3d\<close>, \<open>reconstruct_from_tiles\<close>,
  \<open>pad_3d\<close>, \<open>normalize_tile\<close>), skimage's \<open>img_as_float32\<close>, and the construction of a
  network from a checkpoint file (\<open>UNet3D\<close>, \<open>torch.load\<close>). They are parameters of the
  model. The first three and the checkpoint loader may raise.
\<close>

record 'a trainer_env =
  get_coords_3d :: "shape3 \<Rightarrow> shape3 \<Rightarrow> py_exception + coord list"
  reconstruct_from_tiles :: "int vol list \<Rightarrow> coord list \<Rightarrow> shape3 \<Rightarrow> py_exception + int vol"
  pad_3d :: "'a vol \<Rightarrow> int \<Rightarrow> int \<Rightarrow> py_exception + 'a vol"
  img_as_float32 :: "'a vol \<Rightarrow> real vol"
  normalize_tile :: "real vol \<Rightarrow> real vol"
  unet_from_checkpoint :: "string \<Rightarrow> string list \<Rightarrow> py_exception + cnn"

text \<open>
  \<open>load_model\<close>: the two globals \<open>cached_model_path\<close> and \<open>cached_model\<close> are assigned
  together, so the cache is one optional pair. A hit returns the cached network, a miss
  builds the network from the checkpoint and stores it. The new cache is returned too.
\<close>

type_synonym model_cache = "(string \<times> cnn) option"

definition load_model ::
  "'a trainer_env \<Rightarrow> model_cache \<Rightarrow> string \<Rightarrow> string list \<Rightarrow> model_cache \<times> (py_exception + cnn)" where
  "load_model env cache model_path classes =
     (case cache of
        Some (cached_model_path, cached_model) \<Rightarrow>
          if model_path = cached_model_path then (cache, Inr cached_model)
          else (case unet_from_checkpoint env model_path classes of
                  Inl e \<Rightarrow> (cache, Inl e)
                | Inr model \<Rightarrow> (Some (model_path, model), Inr model))
      | None \<Rightarrow>
          (case unet_from_checkpoint env model_path classes of
             Inl e \<Rightarrow> (cache, Inl e)
           | Inr model \<Rightarrow> (Some (model_path, model), Inr model)))"

text \<open>
  One pass of the body of the inner \<^verbatim>\<open>for\<close> loop of \<open>segment_3d\<close>: the tile is cut out of
  the image at the coordinate, the three assertions compare its shape with the input
  tile shape, and the tile is converted and normalised.
\<close>

definition extract_tile :: "'a trainer_env \<Rightarrow> 'a vol \<Rightarrow> shape3 \<Rightarrow> coord \<Rightarrow> py_exception + real vol" where
  "extract_tile env img in_tile_shape coord =
     (case coord of (x_coord, y_coord, z_coord) \<Rightarrow>
        (case in_tile_shape of (in_d, in_h, in_w) \<Rightarrow>
           (let tile = slice3 img (z_coord, z_coord + in_d)
                                    (y_coord, y_coord + in_h)
                                    (x_coord, x_coord + in_w)
            in if int (vd tile) \<noteq> in_d then Inl AssertionError
               else if int (vh tile) \<noteq> in_h then Inl AssertionError
               else if int (vw tile) \<noteq> in_w then Inl AssertionError
               else Inr (normalize_tile env (img_as_float32 env tile)))))"

fun extract_batch :: "'a trainer_env \<Rightarrow> 'a vol \<Rightarrow> shape3 \<Rightarrow> coord list \<Rightarrow> py_exception + real vol list" where
  "extract_batch env img in_tile_shape [] = Inr []"
| "extract_batch env img in_tile_shape (c # cs) =
     and_then (extract_tile env img in_tile_shape c) (\<lambda>tile.
     and_then (extract_batch env img in_tile_shape cs) (\<lambda>tiles. Inr (tile # tiles)))"

text \<open>\<^verbatim>\<open>F.pad(tiles, (0,0,0,0,0,0,0,2))\<close>: two channels of zeros after the image channel.\<close>

definition pad_channels :: "real vol list \<Rightarrow> real vol list list" where
  "pad_channels tiles = map (\<lambda>t. [t, zeros_like t, zeros_like t]) tiles"

text \<open>
  The decision for one voxel of one class: softmax over the pair (background,
  foreground), the foreground probability, compared with 0.5, as an integer.
\<close>

definition softmax_fg :: "real \<Rightarrow> real \<Rightarrow> real" where
  "softmax_fg bg fg = exp fg / (exp bg + exp fg)"

definition predicted :: "real \<Rightarrow> real \<Rightarrow> int" where
  "predicted bg fg = (if softmax_fg bg fg > 0.5 then 1 else 0)"

definition class_tile :: "tensor5 \<Rightarrow> nat \<Rightarrow> nat \<Rightarrow> int vol" where
  "class_tile outputs class_idx b =
     vol_map2 predicted (t_vol outputs b class_idx) (t_vol outputs b (class_idx + 1))"

definition class_tiles :: "tensor5 \<Rightarrow> nat \<Rightarrow> int vol list" where
  "class_tiles outputs class_idx = map (class_tile outputs class_idx) [0..<t_batch outputs]"

text \<open>
  The loop over \<open>enumerate(class_idxs)\<close>: class \<open>i\<close> reads the channels \<open>2 * i\<close> and
  \<open>2 * i + 1\<close> and appends one tile per batch element to accumulator \<open>i\<close>. An
  accumulator that does not exist raises IndexError.
\<close>

definition append_class_tiles :: "int vol list list \<Rightarrow> tensor5 \<Rightarrow> py_exception + int vol list list" where
  "append_class_tiles class_output_tiles outputs =
     (let n_classes = t_chan outputs div 2 in
      if length class_output_tiles < n_classes \<and> 0 < t_batch outputs then Inl IndexError
      else Inr (map (\<lambda>(i, tiles). if i < n_classes then tiles @ class_tiles outputs (2 * i) else tiles)
                    (enumerate 0 class_output_tiles)))"

text \<open>
  The \<^verbatim>\<open>while\<close> loop of \<open>segment_3d\<close>, from \<open>coord_idx\<close> and the accumulators so far
  (\<open>None\<close> before the first batch). A batch is the next \<open>batch_size\<close> coordinates, fewer
  at the end. With a batch size below one no tile is collected and \<open>F.pad\<close> rejects the
  empty one-dimensional tensor.
\<close>

function segment_tiles ::
  "'a trainer_env \<Rightarrow> cnn \<Rightarrow> 'a vol \<Rightarrow> int \<Rightarrow> shape3 \<Rightarrow> coord list \<Rightarrow> nat \<Rightarrow>
   int vol list list option \<Rightarrow> py_exception + int vol list list option" where
  "segment_tiles env cnn img batch_size in_tile_shape coords coord_idx class_output_tiles =
     (if coord_idx < length coords then
        (if take (nat batch_size) (drop coord_idx coords) = [] then Inl RuntimeError
         else
           (case extract_batch env img in_tile_shape (take (nat batch_size) (drop coord_idx coords)) of
              Inl e \<Rightarrow> Inl e
            | Inr tiles_to_process \<Rightarrow>
                (case append_class_tiles
                        (case class_output_tiles of
                           None \<Rightarrow> replicate (t_chan (cnn (pad_channels tiles_to_process)) div 2) []
                         | Some acc \<Rightarrow> acc)
                        (cnn (pad_channels tiles_to_process)) of
                   Inl e \<Rightarrow> Inl e
                 | Inr acc' \<Rightarrow>
                     segment_tiles env cnn img batch_size in_tile_shape coords
                       (coord_idx + length (take (nat batch_size) (drop coord_idx coords)))
                       (Some acc'))))
      else Inr class_output_tiles)"
  by pat_completeness auto
termination
  by (relation "measure (\<lambda>(env, cnn, img, batch_size, in_tile_shape, coords, coord_idx, acc).
                  length coords - coord_idx)") auto

text \<open>Reconstruction of every class, in order; the first failure is raised.\<close>

fun reconstruct_all ::
  "'a trainer_env \<Rightarrow> int vol list list \<Rightarrow> coord list \<Rightarrow> shape3 \<Rightarrow> py_exception + int vol list" where
  "reconstruct_all env [] coords out_im_shape = Inr []"
| "reconstruct_all env (output_tiles # rest) coords out_im_shape =
     and_then (reconstruct_from_tiles env output_tiles coords out_im_shape) (\<lambda>reconstructed.
     and_then (reconstruct_all env rest coords out_im_shape) (\<lambda>maps. Inr (reconstructed # maps)))"

text \<open>
  \<open>segment_3d\<close>. The image is a three-dimensional array by its type, so the first
  assertion (three axes) holds. Iterating over accumulators that are still \<open>None\<close> (no
  coordinate at all) raises TypeError.
\<close>

definition segment_3d ::
  "'a trainer_env \<Rightarrow> cnn \<Rightarrow> 'a vol \<Rightarrow> int \<Rightarrow> shape3 \<Rightarrow> shape3 \<Rightarrow> py_exception + int vol list" where
  "segment_3d env cnn img batch_size in_tile_shape out_tile_shape =
     (if \<not> int (vd img) \<ge> fst in_tile_shape then Inl AssertionError
      else if \<not> int (vh img) \<ge> fst (snd in_tile_shape) then Inl AssertionError
      else if \<not> int (vw img) \<ge> snd (snd in_tile_shape) then Inl AssertionError
      else
        (let depth_diff = fst in_tile_shape - fst out_tile_shape;
             width_diff = fst (snd in_tile_shape) - fst (snd out_tile_shape);
             out_im_shape = (int (vd img) - depth_diff,
                             int (vh img) - width_diff,
                             int (vw img) - width_diff)
         in and_then (get_coords_3d env out_im_shape out_tile_shape) (\<lambda>coords.
            and_then (segment_tiles env cnn img batch_size in_tile_shape coords 0 None)
              (\<lambda>class_output_tiles.
                 case class_output_tiles of
                   None \<Rightarrow> Inl TypeError
                 | Some tiles \<Rightarrow> reconstruct_all env tiles coords out_im_shape))))"

text \<open>
  The six crop values of a bounded volume, read from the file name as the source does:
  the extension is removed, the name is split at underscores, and the tokens at the
  positions -8, -7 (x), -5, -4 (y), -2, -1 (z) from the end go through \<open>int\<close>, in
  this order.
\<close>

definition parse_crops :: "string \<Rightarrow> py_exception + ((int \<times> int) \<times> (int \<times> int) \<times> (int \<times> int))" where
  "parse_crops fname =
     (let fname_parts = str_split CHR ''_'' (str_replace ''.nii.gz'' [] fname) in
      and_then (and_then (py_getitem fname_parts (- 8)) py_int) (\<lambda>x_crop_start.
      and_then (and_then (py_getitem fname_parts (- 7)) py_int) (\<lambda>x_crop_end.
      and_then (and_then (py_getitem fname_parts (- 5)) py_int) (\<lambda>y_crop_start.
      and_then (and_then (py_getitem fname_parts (- 4)) py_int) (\<lambda>y_crop_end.
      and_then (and_then (py_getitem fname_parts (- 2)) py_int) (\<lambda>z_crop_start.
      and_then (and_then (py_getitem fname_parts (- 1)) py_int) (\<lambda>z_crop_end.
        Inr ((x_crop_start, x_crop_end), (y_crop_start, y_crop_end),
             (z_crop_start, z_crop_end)))))))))"

text \<open>
  \<^verbatim>\<open>pred_map[zs:shape[0] - ze, ys:shape[1] - ye, xs:shape[2] - xe]\<close>, with Python's
  slice bounds.
\<close>

definition crop_pred_map :: "'b vol \<Rightarrow> int \<times> int \<Rightarrow> int \<times> int \<Rightarrow> int \<times> int \<Rightarrow> 'b vol" where
  "crop_pred_map pred_map zc yc xc =
     slice3 pred_map (fst zc, int (vd pred_map) - snd zc)
                     (fst yc, int (vh pred_map) - snd yc)
                     (fst xc, int (vw pred_map) - snd xc)"

text \<open>
  \<open>ensemble_segment_3d\<close>, with the model cache passed in and returned. The steps follow
  the source: the model at \<open>model_paths[0]\<close> is loaded; an unbounded image is padded;
  \<open>segment_3d\<close> runs; for an unbounded image the shape of the first map is asserted; for
  a bounded one the crop values are parsed, the half margins subtracted and every map
  cropped.
\<close>

definition ensemble_segment_3d ::
  "'a trainer_env \<Rightarrow> model_cache \<Rightarrow> string list \<Rightarrow> 'a vol \<Rightarrow> string \<Rightarrow> int \<Rightarrow>
   int \<Rightarrow> int \<Rightarrow> int \<Rightarrow> int \<Rightarrow> string list \<Rightarrow> bool \<Rightarrow>
   model_cache \<times> (py_exception + int vol list)" where
  "ensemble_segment_3d env cache model_paths img fname batch_size in_w out_w in_d out_d classes bounded =
     (case py_getitem model_paths 0 of
        Inl e \<Rightarrow> (cache, Inl e)
      | Inr model_path \<Rightarrow>
          (case load_model env cache model_path classes of
             (cache', Inl e) \<Rightarrow> (cache', Inl e)
           | (cache', Inr cnn) \<Rightarrow>
               (cache',
                (let input_image_shape = vol_shape img;
                     in_patch_shape = (in_d, in_w, in_w);
                     out_patch_shape = (out_d, out_w, out_w);
                     depth_diff = fst in_patch_shape - fst out_patch_shape;
                     height_diff = fst (snd in_patch_shape) - fst (snd out_patch_shape);
                     width_diff = snd (snd in_patch_shape) - snd (snd out_patch_shape)
                 in and_then (if \<not> bounded then pad_3d env img (width_diff div 2) (depth_diff div 2)
                              else Inr img) (\<lambda>img'.
                    and_then (segment_3d env cnn img' batch_size in_patch_shape out_patch_shape)
                      (\<lambda>pred_maps.
                    and_then (if \<not> bounded
                              then and_then (py_getitem pred_maps 0) (\<lambda>m.
                                     if vol_shape m = input_image_shape then Inr ()
                                     else Inl AssertionError)
                              else Inr ()) (\<lambda>_.
                    if bounded then
                      and_then (parse_crops fname) (\<lambda>(xc, yc, zc).
                        Inr (map (\<lambda>pred_map.
                                    crop_pred_map pred_map
                                      (fst zc - depth_diff div 2, snd zc - depth_diff div 2)
                                      (fst yc - height_diff div 2, snd yc - height_diff div 2)
                                      (fst xc - width_diff div 2, snd xc - width_diff div 2))
                                 pred_maps))
                    else Inr pred_maps)))))))"

section \<open>The painter: saving annotations (file\_utils.py)\<close>

text \<open>
  An n-dimensional numpy array: its shape and its elements in storage order.
  \<open>np.array_equal\<close> is equality of both.
\<close>

record 'a ndarray =
  shape :: "nat list"
  elems :: "'a list"

definition array_equal :: "'a ndarray \<Rightarrow> 'a ndarray \<Rightarrow> bool" where
  "array_equal a1 a2 = (shape a1 = shape a2 \<and> elems a1 = elems a2)"

text \<open>
  \<open>astype(np.byte)\<close> of an array of integers keeps the low eight bits, read as a signed
  value; of an array of booleans it gives 1 and 0. \<open>np.sum\<close> adds the signed values in a
  wider integer.
\<close>

definition astype_byte :: "int ndarray \<Rightarrow> 8 word ndarray" where
  "astype_byte a = \<lparr>shape = shape a, elems = map word_of_int (elems a)\<rparr>"

definition bool_astype_byte :: "bool ndarray \<Rightarrow> 8 word ndarray" where
  "bool_astype_byte a = \<lparr>shape = shape a, elems = map (\<lambda>b. if b then 1 else 0) (elems a)\<rparr>"

definition np_sum :: "8 word ndarray \<Rightarrow> int" where
  "np_sum a = sum_list (map sint (elems a))"

text \<open>
  The part of the file system the function touches: the files, by path, with the array
  each one stores. Directories are implicit. Every change the function makes is also
  recorded as an operation, in order.
\<close>

type_synonym filesystem = "(string \<times> int ndarray) list"

datatype fs_op =
    Mkdir string
  | WriteFile string "int ndarray"
  | Rename string string
  | Remove string

definition fs_remove :: "string \<Rightarrow> filesystem \<Rightarrow> filesystem" where
  "fs_remove p fs = filter (\<lambda>(q, c). q \<noteq> p) fs"

definition fs_write :: "string \<Rightarrow> int ndarray \<Rightarrow> filesystem \<Rightarrow> filesystem" where
  "fs_write p c fs = (p, c) # fs_remove p fs"

definition fs_rename :: "string \<Rightarrow> string \<Rightarrow> filesystem \<Rightarrow> filesystem" where
  "fs_rename src dst fs =
     (case map_of fs src of
        None \<Rightarrow> fs
      | Some c \<Rightarrow> fs_write dst c (fs_remove src fs))"

text \<open>What \<open>nib.Nifti1Image(annot_data, ...).to_filename\<close> stores for an array of bytes.\<close>

definition stored_bytes :: "8 word ndarray \<Rightarrow> int ndarray" where
  "stored_bytes a = \<lparr>shape = shape a, elems = map sint (elems a)\<rparr>"

text \<open>
  \<open>im_utils.load_annot\<close>: the array of the file as booleans (both branches of the source
  read the file and convert with \<open>dtype=bool\<close>); a missing file raises.
\<close>

definition load_annot :: "filesystem \<Rightarrow> string \<Rightarrow> nat list \<Rightarrow> py_exception + bool ndarray" where
  "load_annot fs annot_path img_data_shape =
     (case map_of fs annot_path of
        None \<Rightarrow> Inl FileNotFoundError
      | Some a \<Rightarrow> Inr \<lparr>shape = shape a, elems = map (\<lambda>v. v \<noteq> 0) (elems a)\<rparr>)"

text \<open>Paths (posixpath): \<open>os.path.join\<close> of two parts, \<open>dirname\<close>, \<open>basename\<close>, \<open>splitext\<close>.\<close>

definition path_join :: "string \<Rightarrow> string \<Rightarrow> string" where
  "path_join a b =
     (if b \<noteq> [] \<and> hd b = CHR ''/'' then b
      else if a = [] \<or> last a = CHR ''/'' then a @ b
      else a @ ''/'' @ b)"

definition basename :: "string \<Rightarrow> string" where
  "basename p = rev (takeWhile (\<lambda>c. c \<noteq> CHR ''/'') (rev p))"

definition dirname :: "string \<Rightarrow> string" where
  "dirname p =
     (let head = rev (dropWhile (\<lambda>c. c \<noteq> CHR ''/'') (rev p)) in
      if head \<noteq> [] \<and> \<not> list_all (\<lambda>c. c = CHR ''/'') head
      then rev (dropWhile (\<lambda>c. c = CHR ''/'') (rev head))
      else head)"

definition splitext_ext :: "string \<Rightarrow> string" where
  "splitext_ext p =
     (let name = basename p;
          after_dot = rev (takeWhile (\<lambda>c. c \<noteq> CHR ''.'') (rev name));
          upto_dot = rev (dropWhile (\<lambda>c. c \<noteq> CHR ''.'') (rev name))
      in if upto_dot = [] \<or> list_all (\<lambda>c. c = CHR ''.'') upto_dot then []
         else CHR ''.'' # after_dot)"

text \<open>
  \<open>get_recursive_files\<close>: the files below a directory (given without a trailing slash),
  at any depth.
\<close>

definition get_recursive_files :: "filesystem \<Rightarrow> string \<Rightarrow> string list" where
  "get_recursive_files fs input_path =
     filter (\<lambda>p. length input_path + 1 < length p \<and> take (length input_path + 1) p = input_path @ ''/'')
            (map fst fs)"

definition get_new_annot_target_dir :: "filesystem \<Rightarrow> string \<Rightarrow> string \<Rightarrow> string" where
  "get_new_annot_target_dir fs train_annot_dir val_annot_dir =
     (let train_annots = filter (\<lambda>f. splitext_ext f \<in> set [''.png'', ''.npy'', ''.gz''])
                                (get_recursive_files fs train_annot_dir);
          val_annots = filter (\<lambda>f. splitext_ext f \<in> set [''.png'', ''.npy'', ''.gz''])
                              (get_recursive_files fs val_annot_dir);
          num_train_annots = length train_annots;
          num_val_annots = length val_annots
      in if num_train_annots = 0 \<and> num_val_annots = 0 then train_annot_dir
         else if num_train_annots = 0 \<and> num_val_annots > 0 then train_annot_dir
         else if num_train_annots > 0 \<and> num_val_annots = 0 then val_annot_dir
         else if num_train_annots \<ge> num_val_annots * 5 then val_annot_dir
         else train_annot_dir)"

text \<open>
  The outcome of \<open>maybe_save_annotation_3d\<close>: the file system afterwards, the operations
  performed on it, the lines handed to \<open>log\<close>, and the returned annotation path.
\<close>

record save_outcome =
  fs_after :: filesystem
  fs_ops :: "fs_op list"
  logged :: "string list"
  returned_path :: "string option"

text \<open>
  \<open>maybe_save_annotation_3d\<close>. The annotation path is \<open>None\<close> or a string, and
  \<^verbatim>\<open>if annot_path:\<close> holds for a non-empty string. The annotation data is an array of
  integers (booleans count as 0 and 1).
\<close>

definition maybe_save_annotation_3d ::
  "filesystem \<Rightarrow> nat list \<Rightarrow> int ndarray \<Rightarrow> string option \<Rightarrow> string \<Rightarrow> string \<Rightarrow> string \<Rightarrow>
   py_exception + save_outcome" where
  "maybe_save_annotation_3d fs image_data_shape annot_data0 annot_path fname train_annot_dir val_annot_dir =
     (let annot_data = astype_byte annot_data0 in
      if annot_path \<noteq> None \<and> annot_path \<noteq> Some [] then
        (case load_annot fs (the annot_path) image_data_shape of
           Inl e \<Rightarrow> Inl e
         | Inr loaded \<Rightarrow>
             (let existing_annot = bool_astype_byte loaded in
              if \<not> array_equal annot_data existing_annot then
                (if np_sum annot_data = 0 then
                   Inr \<lparr>fs_after = fs_remove (the annot_path) fs,
                        fs_ops = [Remove (the annot_path)],
                        logged = [''maybe_save_annot,'' @ fname @
                                  '',remove existing annotation as new data is empty''],
                        returned_path = annot_path\<rparr>
                 else
                   Inr \<lparr>fs_after = fs_write (the annot_path) (stored_bytes annot_data) fs,
                        fs_ops = [WriteFile (the annot_path) (stored_bytes annot_data)],
                        logged = [''maybe_save_annot,'' @ fname @ '',updated existing data''],
                        returned_path = annot_path\<rparr>)
              else
                Inr \<lparr>fs_after = fs, fs_ops = [], logged = [], returned_path = annot_path\<rparr>))
      else
        (if np_sum annot_data > 0 then
           (let annot_dir = get_new_annot_target_dir fs train_annot_dir val_annot_dir;
                tmp_annot_path = path_join annot_dir (''.tmp_'' @ fname);
                new_annot_path = path_join annot_dir fname
            in Inr \<lparr>fs_after = fs_rename tmp_annot_path new_annot_path
                                  (fs_write tmp_annot_path (stored_bytes annot_data) fs),
                    fs_ops = [Mkdir (dirname tmp_annot_path), Mkdir (dirname new_annot_path),
                              WriteFile tmp_annot_path (stored_bytes annot_data),
                              Rename tmp_annot_path new_annot_path],
                    logged = [''maybe_save_annot,'' @ fname @ '',create new''],
                    returned_path = Some new_annot_path\<rparr>)
         else
           Inr \<lparr>fs_after = fs, fs_ops = [],
                logged = [''maybe_save_annot,'' @ fname @ '',not saving as annotation data empty''],
                returned_path = annot_path\<rparr>))"

section \<open>The painter: the change-watch loop (root\_painter.py)\<close>

datatype view_state = BOUNDING_BOX | LOADING_SEG | ANNOTATING

text \<open>
  The fields of the main window that \<open>track_changes\<close> reads or writes. An attribute that
  \<open>hasattr\<close> tests is optional: \<open>info_label\<close> is the label's text when the label
  exists, \<open>seg_path\<close> is the attribute's value (\<open>None\<close> or a string) when the attribute
  exists. \<open>viewers\<close> holds \<open>isVisible()\<close> of each viewer. The time stamp that \<open>log\<close>
  puts before a message is left out of \<open>lines_to_log\<close>.
\<close>

record ('m, 's) root_painter =
  tracking :: bool
  message_dir :: string
  info_label :: "string option"
  seg_path :: "string option option"
  seg_mtime :: "'m option"
  seg_data :: "'s option"
  view_state :: view_state
  viewers :: "bool list"
  next_image_button_text :: string
  next_image_button_enabled :: bool
  lines_to_log :: "string list"

text \<open>
  What a tick finds outside the process: the message directory as \<open>os.listdir\<close> returns
  it (each name with the contents of the file, or the exception that \<open>os.listdir\<close>
  raises), the names for which \<open>os.remove\<close> raises, \<open>os.path.isfile\<close>,
  \<open>os.path.getmtime\<close>, and \<open>im_utils.load_seg\<close> (of the painter's own module next to
  root\_painter.py, which the sources do not contain; it returns the pair of the
  segmentation and its properties, or raises).
\<close>

record ('m, 's) world =
  message_files :: "py_exception + (string \<times> string) list"
  remove_raises :: "string \<Rightarrow> py_exception option"
  isfile :: "string \<Rightarrow> bool"
  getmtime :: "string \<Rightarrow> py_exception + 'm"
  load_seg :: "string \<Rightarrow> py_exception + 's"

text \<open>
  What a tick does that is visible outside the record, in order. The calls on the
  widgets (label, viewers, button) and \<open>log\<close> are taken to return normally.
\<close>

datatype gui_event =
    SetInfoLabelText string
  | PrintCaughtDelete py_exception
  | PrintCaughtLoad py_exception
  | AxialUpdateSegSlice
  | UpdateCursor nat
  | SingleShotUpdateCursor nat
  | ViewerUpdateSegSlice nat
  | SingleShotCheck

text \<open>
  The loop over the messages: the label, when it exists, is set to the name \<open>m\<close> of the
  file; then the file is removed, and an exception of \<open>os.remove\<close> is printed.
\<close>

fun show_messages ::
  "(string \<Rightarrow> py_exception option) \<Rightarrow> ('m, 's) root_painter \<Rightarrow> (string \<times> string) list \<Rightarrow>
   string list \<Rightarrow> ('m, 's) root_painter \<times> (string \<times> string) list \<times> gui_event list" where
  "show_messages rm p files [] = (p, files, [])"
| "show_messages rm p files (m # messages) =
     (let (p1, ev1) = (if info_label p \<noteq> None
                       then (p\<lparr>info_label := Some m\<rparr>, [SetInfoLabelText m])
                       else (p, []));
          (files1, ev2) = (case rm m of
                             None \<Rightarrow> (filter (\<lambda>(n, c). n \<noteq> m) files, [])
                           | Some e \<Rightarrow> (files, [PrintCaughtDelete e]));
          (p2, files2, ev3) = show_messages rm p1 files1 messages
      in (p2, files2, ev1 @ ev2 @ ev3))"

text \<open>The calls on the viewers after a segmentation has been loaded.\<close>

definition viewer_events :: "bool list \<Rightarrow> gui_event list" where
  "viewer_events vs =
     concat (map (\<lambda>(i, visible). [UpdateCursor i, SingleShotUpdateCursor i] @
                                   (if visible then [ViewerUpdateSegSlice i] else []))
                 (enumerate 0 vs))"

text \<open>
  The second half of \<open>check\<close>: the test for a segmentation on disk and the \<^verbatim>\<open>try\<close> block.
  An exception of \<open>getmtime\<close> or \<open>load_seg\<close> is caught and printed; the log line is
  written before \<open>load_seg\<close> is called.
\<close>

definition check_segmentation ::
  "('m::linorder, 's) world \<Rightarrow> ('m, 's) root_painter \<Rightarrow> ('m, 's) root_painter \<times> gui_event list" where
  "check_segmentation w p =
     (case seg_path p of
        Some (Some path) \<Rightarrow>
          if path \<noteq> [] \<and> isfile w path then
            (case getmtime w path of
               Inl e \<Rightarrow> (p, [PrintCaughtLoad e])
             | Inr new_mtime \<Rightarrow>
                 if (case seg_mtime p of None \<Rightarrow> True | Some old \<Rightarrow> new_mtime > old) then
                   (let p1 = p\<lparr>lines_to_log := lines_to_log p @ [''load_seg,fname:'' @ basename path]\<rparr>
                    in case load_seg w path of
                         Inl e \<Rightarrow> (p1, [PrintCaughtLoad e])
                       | Inr loaded \<Rightarrow>
                           (p1\<lparr>seg_data := Some loaded,
                               view_state := ANNOTATING,
                               seg_mtime := Some new_mtime,
                               next_image_button_text := ''Save && Next >'',
                               next_image_button_enabled := True\<rparr>,
                            AxialUpdateSegSlice # viewer_events (viewers p)))
                 else (p, []))
          else (p, [])
      | _ \<Rightarrow> (p, []))"

text \<open>
  One tick: \<open>check\<close>. An exception of \<open>os.listdir\<close> is not caught and ends the tick
  before anything else happens. Otherwise the messages are handled, the segmentation is
  checked, and the last statement schedules the next tick.
\<close>

record ('m, 's) tick_outcome =
  painter_after :: "('m, 's) root_painter"
  messages_after :: "(string \<times> string) list"
  events :: "gui_event list"

definition check :: "('m::linorder, 's) world \<Rightarrow> ('m, 's) root_painter \<Rightarrow> py_exception + ('m, 's) tick_outcome" where
  "check w p =
     (case message_files w of
        Inl e \<Rightarrow> Inl e
      | Inr files \<Rightarrow>
          (let (p1, files1, ev1) = show_messages (remove_raises w) p files (map fst files);
               (p2, ev2) = check_segmentation w p1
           in Inr \<lparr>painter_after = p2, messages_after = files1,
                   events = ev1 @ ev2 @ [SingleShotCheck]\<rparr>))"

text \<open>\<open>track_changes\<close>: nothing when the watch is already running; else the first tick is scheduled.\<close>

definition track_changes :: "('m, 's) root_painter \<Rightarrow> ('m, 's) root_painter \<times> gui_event list" where
  "track_changes p = (if tracking p then (p, []) else (p\<lparr>tracking := True\<rparr>, [SingleShotCheck]))"

text \<open>
  What the loop over the messages does for one message \<open>m\<close>, as events: the label is set
  when it exists, and an exception of the removal is printed.
\<close>

definition message_events :: "bool \<Rightarrow> (string \<Rightarrow> py_exception option) \<Rightarrow> string \<Rightarrow> gui_event list" where
  "message_events has_label rm m =
     (if has_label then [SetInfoLabelText m] else []) @
     (case rm m of None \<Rightarrow> [] | Some e \<Rightarrow> [PrintCaughtDelete e])"

text \<open>
  The condition of the specification for a reload, in its words: a segmentation file
  exists at the expected path \<open>path\<close>, its modification time \<open>new_mtime\<close> can be read, and
  either no segmentation has been loaded yet or the file is strictly newer than the one
  loaded last.
\<close>

definition reload_due :: "('m::linorder, 's) world \<Rightarrow> ('m, 's) root_painter \<Rightarrow> string \<Rightarrow> 'm \<Rightarrow> bool" where
  "reload_due w p path new_mtime =
     (seg_path p = Some (Some path) \<and> path \<noteq> [] \<and> isfile w path \<and>
      getmtime w path = Inr new_mtime \<and>
      (case seg_mtime p of None \<Rightarrow> True | Some old \<Rightarrow> old < new_mtime))"

text \<open>
  A window waiting for a segmentation it has seen at time 100, and a tick that finds two
  messages (the second cannot be removed) and a segmentation file written at time 250.
\<close>

definition example_painter :: "(nat, string) root_painter" where
  "example_painter =
     \<lparr>tracking = True, message_dir = ''proj/messages'', info_label = Some [],
      seg_path = Some (Some ''proj/segmentations/scan.nii.gz''), seg_mtime = Some 100,
      seg_data = None, view_state = LOADING_SEG, viewers = [True, False],
      next_image_button_text = ''Loading Segmentation...'', next_image_button_enabled = False,
      lines_to_log = []\<rparr>"

definition example_world :: "(nat, string) world" where
  "example_world =
     \<lparr>message_files = Inr [(''Training'', ''epoch 3''), (''Stopped'', [])],
      remove_raises = (\<lambda>m. if m = ''Stopped'' then Some OSError else None),
      isfile = (\<lambda>path. path = ''proj/segmentations/scan.nii.gz''),
      getmtime = (\<lambda>path. if path = ''proj/segmentations/scan.nii.gz'' then Inr 250 else Inl FileNotFoundError),
      load_seg = (\<lambda>path. if path = ''proj/segmentations/scan.nii.gz'' then Inr ''segmentation'' else Inl FileNotFoundError)\<rparr>"


text \<open>
  Words for the properties of the tile loop. A coordinate is in bounds when the input
  tile placed there lies inside the image; \<open>tile_at\<close> is the tile the loop hands to the
  network for a coordinate; \<open>batch_outputs f n xs\<close> groups \<open>xs\<close> into batches of \<open>n\<close>
  (the last one may be short) and concatenates what \<open>f\<close> returns for each batch;
  \<open>class_batch\<close> is what one batch adds to the accumulator of class \<open>i\<close>.
\<close>

definition in_bounds :: "'a vol \<Rightarrow> shape3 \<Rightarrow> coord \<Rightarrow> bool" where
  "in_bounds img in_tile_shape c =
     (case c of (x, y, z) \<Rightarrow> case in_tile_shape of (d, h, w) \<Rightarrow>
        0 \<le> z \<and> 0 \<le> d \<and> z + d \<le> int (vd img) \<and>
        0 \<le> y \<and> 0 \<le> h \<and> y + h \<le> int (vh img) \<and>
        0 \<le> x \<and> 0 \<le> w \<and> x + w \<le> int (vw img))"

definition tile_at :: "'a trainer_env \<Rightarrow> 'a vol \<Rightarrow> shape3 \<Rightarrow> coord \<Rightarrow> real vol" where
  "tile_at env img in_tile_shape c =
     (case c of (x, y, z) \<Rightarrow> case in_tile_shape of (d, h, w) \<Rightarrow>
        normalize_tile env (img_as_float32 env (slice3 img (z, z + d) (y, y + h) (x, x + w))))"

function batch_outputs :: "('a list \<Rightarrow> 'b list) \<Rightarrow> nat \<Rightarrow> 'a list \<Rightarrow> 'b list" where
  "batch_outputs f n xs =
     (if n = 0 \<or> xs = [] then [] else f (take n xs) @ batch_outputs f n (drop n xs))"
  by pat_completeness auto
termination
  by (relation "measure (\<lambda>(f, n, xs). length xs)") auto

declare batch_outputs.simps [simp del]

declare segment_tiles.simps [simp del]

definition class_batch :: "'a trainer_env \<Rightarrow> cnn \<Rightarrow> 'a vol \<Rightarrow> shape3 \<Rightarrow> nat \<Rightarrow> coord list \<Rightarrow> int vol list" where
  "class_batch env cnn img in_tile_shape i batch =
     class_tiles (cnn (pad_channels (map (tile_at env img in_tile_shape) batch))) (2 * i)"

text \<open>
  Every accumulator extended by its own list of tiles.
\<close>

definition with_tiles :: "'b list list \<Rightarrow> (nat \<Rightarrow> 'b list) \<Rightarrow> 'b list list" where
  "with_tiles acc g = map (\<lambda>(i, tiles). tiles @ g i) (enumerate 0 acc)"

text \<open>
  Modelled from the spec: \<open>im_utils.get_coords_3d\<close> of the trainer is not among the
  sources. Section 4.1: the corners advance by the output-patch extent along each axis,
  the last tile of an axis is aligned with the far edge, and a volume smaller than the
  patch on some axis fails with \<open>ShapeError\<close>. A coordinate is \<open>(x, y, z)\<close>.
\<close>

definition tile_starts :: "int \<Rightarrow> int \<Rightarrow> int list" where
  "tile_starts n t = map (\<lambda>k. int k * t) [0..<nat ((n + t - 1) div t) - 1] @ [max 0 (n - t)]"

definition plan_coords :: "shape3 \<Rightarrow> shape3 \<Rightarrow> py_exception + coord list" where
  "plan_coords output_shape tile_shape =
     (case output_shape of (d, h, w) \<Rightarrow> case tile_shape of (td, th, tw) \<Rightarrow>
        if td \<le> 0 \<or> th \<le> 0 \<or> tw \<le> 0 \<or> d < td \<or> h < th \<or> w < tw then Inl ShapeError
        else Inr (concat (map (\<lambda>z. concat (map (\<lambda>y. map (\<lambda>x. (x, y, z)) (tile_starts w tw))
                                                  (tile_starts h th)))
                              (tile_starts d td))))"

text \<open>
  Modelled from the spec: \<open>im_utils.reconstruct_from_tiles\<close> of the trainer is not among
  the sources. Section 4.4: one output array of the target shape, every tile written at
  its corner, and where tiles overlap the later one in coordinate order wins.
\<close>

definition covers :: "'b vol \<times> coord \<Rightarrow> nat \<Rightarrow> nat \<Rightarrow> nat \<Rightarrow> bool" where
  "covers tc z y x =
     (case tc of (t, (cx, cy, cz)) \<Rightarrow>
        cz \<le> int z \<and> int z < cz + int (vd t) \<and>
        cy \<le> int y \<and> int y < cy + int (vh t) \<and>
        cx \<le> int x \<and> int x < cx + int (vw t))"

definition scatter_tiles :: "int vol list \<Rightarrow> coord list \<Rightarrow> shape3 \<Rightarrow> py_exception + int vol" where
  "scatter_tiles tiles coords output_shape =
     (case output_shape of (d, h, w) \<Rightarrow>
        if d < 0 \<or> h < 0 \<or> w < 0 then Inl ValueError
        else Inr \<lparr>vd = nat d, vh = nat h, vw = nat w,
                  vox = (\<lambda>z y x.
                     case find (\<lambda>tc. covers tc z y x) (rev (zip tiles coords)) of
                       None \<Rightarrow> 0
                     | Some (t, (cx, cy, cz)) \<Rightarrow>
                         vox t (nat (int z - cz)) (nat (int y - cy)) (nat (int x - cx)))\<rparr>)"

text \<open>
  Modelled from the spec: \<open>im_utils.pad_3d\<close> of the trainer is not among the sources. The
  data model speaks of a volume that is pre-padded so that no border is cropped away;
  the call in \<open>ensemble_segment_3d\<close> passes the mode \<open>reflect\<close>, a width for the height
  and width axes and a depth for the depth axis, added on both sides.
\<close>

definition reflect_index :: "nat \<Rightarrow> int \<Rightarrow> nat" where
  "reflect_index n j =
     (if n \<le> 1 then 0
      else let m = nat (j mod (2 * int n - 2)) in if m < n then m else 2 * n - 2 - m)"

definition reflect_pad_3d :: "'a vol \<Rightarrow> int \<Rightarrow> int \<Rightarrow> py_exception + 'a vol" where
  "reflect_pad_3d v width depth =
     (if width < 0 \<or> depth < 0 then Inl ValueError
      else if (vd v = 0 \<and> 0 < depth) \<or> ((vh v = 0 \<or> vw v = 0) \<and> 0 < width) then Inl ValueError
      else Inr \<lparr>vd = vd v + 2 * nat depth, vh = vh v + 2 * nat width, vw = vw v + 2 * nat width,
                vox = (\<lambda>z y x. vox v (reflect_index (vd v) (int z - depth))
                                       (reflect_index (vh v) (int y - width))
                                       (reflect_index (vw v) (int x - width)))\<rparr>)"

text \<open>
  A network for the examples, in the manner of \<open>fake_cnn\<close>: one class, the output tile
  is the input tile without its margins, the foreground logit is the voxel value and the
  background logit is zero.
\<close>

definition centre_cnn :: "nat \<Rightarrow> nat \<Rightarrow> cnn" where
  "centre_cnn md mw batch =
     \<lparr>t_batch = length batch, t_chan = 2,
      t_vol = (\<lambda>b c. case batch ! b of
                 [] \<Rightarrow> \<lparr>vd = 0, vh = 0, vw = 0, vox = (\<lambda>z y x. 0)\<rparr>
               | t # _ \<Rightarrow> \<lparr>vd = vd t - 2 * md, vh = vh t - 2 * mw, vw = vw t - 2 * mw,
                          vox = (\<lambda>z y x. if c = 1 then vox t (z + md) (y + mw) (x + mw) else 0)\<rparr>)\<rparr>"

text \<open>
  The environment and the image of the examples.
\<close>

definition example_env :: "int trainer_env" where
  "example_env =
     \<lparr>get_coords_3d = plan_coords,
      reconstruct_from_tiles = scatter_tiles,
      pad_3d = reflect_pad_3d,
      img_as_float32 = (\<lambda>v. \<lparr>vd = vd v, vh = vh v, vw = vw v, vox = (\<lambda>z y x. real_of_int (vox v z y x))\<rparr>),
      normalize_tile = (\<lambda>t. t),
      unet_from_checkpoint = (\<lambda>path classes.
         if path = ''models/000001_1600000000.pkl'' then Inr (centre_cnn 0 1) else Inl FileNotFoundError)\<rparr>"

definition example_image :: "int vol" where
  "example_image = \<lparr>vd = 1, vh = 4, vw = 4, vox = (\<lambda>z y x. 4 * int y + int x - 7)\<rparr>"

section \<open>Properties of saving annotations\<close>

text \<open>
  The branch for a new annotation writes under a temporary name and renames; this is the
  path the comment of the source describes (rename after saving, so that no partially
  saved annotation is loaded).
\<close>

lemma maybe_save_annotation_3d_new_example:
  "maybe_save_annotation_3d [] [1, 1, 2] \<lparr>shape = [2, 1, 1, 2], elems = [0, 1, 1, 0]\<rparr>
      None ''scan.nii.gz'' ''proj/annotations/train'' ''proj/annotations/val''
   = Inr \<lparr>fs_after = [(''proj/annotations/train/scan.nii.gz'', \<lparr>shape = [2, 1, 1, 2], elems = [0, 1, 1, 0]\<rparr>)],
          fs_ops = [Mkdir ''proj/annotations/train'', Mkdir ''proj/annotations/train'',
                    WriteFile ''proj/annotations/train/.tmp_scan.nii.gz'' \<lparr>shape = [2, 1, 1, 2], elems = [0, 1, 1, 0]\<rparr>,
                    Rename ''proj/annotations/train/.tmp_scan.nii.gz'' ''proj/annotations/train/scan.nii.gz''],
          logged = [''maybe_save_annot,scan.nii.gz,create new''],
          returned_path = Some ''proj/annotations/train/scan.nii.gz''\<rparr>"
  by (simp add: maybe_save_annotation_3d_def astype_byte_def np_sum_def fs_write_def fs_remove_def
        fs_rename_def stored_bytes_def get_new_annot_target_dir_def get_recursive_files_def
        path_join_def dirname_def Let_def)

text \<open>
  Claim C4 (every annotation, new or edited, is persisted by writing a temporary file and
  renaming it into place). The edit of an existing annotation does not: with a stored
  annotation at the given path and new data that differs from it and is not empty, the
  only operation is one write to the annotation's own path. No temporary name and no
  rename occur, so the file under its final name is the one being written.
\<close>

theorem maybe_save_annotation_3d_edit_in_place:
  "maybe_save_annotation_3d
      [(''proj/annotations/train/scan.nii.gz'', \<lparr>shape = [2, 1, 1, 2], elems = [0, 1, 0, 0]\<rparr>)]
      [1, 1, 2] \<lparr>shape = [2, 1, 1, 2], elems = [0, 1, 1, 0]\<rparr>
      (Some ''proj/annotations/train/scan.nii.gz'') ''scan.nii.gz''
      ''proj/annotations/train'' ''proj/annotations/val''
   = Inr \<lparr>fs_after = [(''proj/annotations/train/scan.nii.gz'', \<lparr>shape = [2, 1, 1, 2], elems = [0, 1, 1, 0]\<rparr>)],
          fs_ops = [WriteFile ''proj/annotations/train/scan.nii.gz'' \<lparr>shape = [2, 1, 1, 2], elems = [0, 1, 1, 0]\<rparr>],
          logged = [''maybe_save_annot,scan.nii.gz,updated existing data''],
          returned_path = Some ''proj/annotations/train/scan.nii.gz''\<rparr>"
  by (simp add: maybe_save_annotation_3d_def load_annot_def array_equal_def astype_byte_def
        bool_astype_byte_def np_sum_def fs_write_def fs_remove_def stored_bytes_def)

text \<open>
  Claim C10 (frame condition). When an annotation path is given, the stored annotation
  loads, and the new data cast to byte equals the loaded annotation cast to byte, the
  function changes nothing in the file system, performs no operation on it, logs
  nothing, and returns the path it was given.
\<close>

theorem maybe_save_annotation_3d_unchanged:
  assumes "annot_path = Some p" and "p \<noteq> []"
    and "load_annot fs p image_data_shape = Inr loaded"
    and "array_equal (astype_byte annot_data) (bool_astype_byte loaded)"
  shows "maybe_save_annotation_3d fs image_data_shape annot_data annot_path fname train_annot_dir val_annot_dir
           = Inr \<lparr>fs_after = fs, fs_ops = [], logged = [], returned_path = annot_path\<rparr>"
  using assms by (simp add: maybe_save_annotation_3d_def)

theorem maybe_save_annotation_3d_unchanged_witness:
  "maybe_save_annotation_3d
      [(''proj/annotations/train/scan.nii.gz'', \<lparr>shape = [2, 1, 1, 2], elems = [0, 1, 0, 0]\<rparr>)]
      [1, 1, 2] \<lparr>shape = [2, 1, 1, 2], elems = [0, 1, 0, 0]\<rparr>
      (Some ''proj/annotations/train/scan.nii.gz'') ''scan.nii.gz''
      ''proj/annotations/train'' ''proj/annotations/val''
   = Inr \<lparr>fs_after = [(''proj/annotations/train/scan.nii.gz'', \<lparr>shape = [2, 1, 1, 2], elems = [0, 1, 0, 0]\<rparr>)],
          fs_ops = [], logged = [], returned_path = Some ''proj/annotations/train/scan.nii.gz''\<rparr>"
  by (rule maybe_save_annotation_3d_unchanged [where p = "''proj/annotations/train/scan.nii.gz''"
        and loaded = "\<lparr>shape = [2, 1, 1, 2], elems = [False, True, False, False]\<rparr>"])
     (simp_all add: load_annot_def array_equal_def astype_byte_def bool_astype_byte_def)

section \<open>Properties of the ensemble entry point\<close>

text \<open>
  Claim C3 (the pipeline runs once per model of the list and the maps are averaged).
  The function reads \<open>model_paths[0]\<close> and nothing else of the list: whatever follows the
  first path, the result and the cache are those of the call with the first path alone.
\<close>

theorem ensemble_segment_3d_first_model_only:
  "ensemble_segment_3d env cache (model_path # other_paths) img fname batch_size in_w out_w in_d out_d classes bounded
     = ensemble_segment_3d env cache [model_path] img fname batch_size in_w out_w in_d out_d classes bounded"
  by (simp add: ensemble_segment_3d_def py_getitem_def)

section \<open>Properties of the change-watch loop\<close>

lemma show_messages_closed_form:
  "show_messages rm p files ms =
     (if info_label p = None \<or> ms = [] then p else p\<lparr>info_label := Some (last ms)\<rparr>,
      filter (\<lambda>(n, c). \<not> (n \<in> set ms \<and> rm n = None)) files,
      concat (map (message_events (info_label p \<noteq> None) rm) ms))"
proof (induction ms arbitrary: p files)
  case Nil
  then show ?case by simp
next
  case (Cons m ms)
  show ?case
  proof (cases "rm m")
    case None
    then show ?thesis
      by (auto simp: Cons.IH message_events_def Let_def split: prod.splits intro: filter_cong)
  next
    case (Some e)
    then show ?thesis
      by (auto simp: Cons.IH message_events_def Let_def split: prod.splits intro: filter_cong)
  qed
qed

lemma show_messages_listing:
  "show_messages rm p files (map fst files) =
     (if info_label p = None \<or> files = [] then p else p\<lparr>info_label := Some (fst (last files))\<rparr>,
      filter (\<lambda>(n, c). rm n \<noteq> None) files,
      concat (map (message_events (info_label p \<noteq> None) rm) (map fst files)))"
proof -
  have "filter (\<lambda>(n, c). \<not> (n \<in> set (map fst files) \<and> rm n = None)) files
         = filter (\<lambda>(n, c). rm n \<noteq> None) files"
    by (rule filter_cong) (force simp: image_iff)+
  then show ?thesis
    unfolding show_messages_closed_form by (simp add: last_map)
qed

lemma check_unfold:
  assumes "message_files w = Inr files"
  shows "check w p =
     Inr \<lparr>painter_after = fst (check_segmentation w
              (if info_label p = None \<or> files = [] then p else p\<lparr>info_label := Some (fst (last files))\<rparr>)),
          messages_after = filter (\<lambda>(n, c). remove_raises w n \<noteq> None) files,
          events = concat (map (message_events (info_label p \<noteq> None) (remove_raises w)) (map fst files))
                   @ snd (check_segmentation w
              (if info_label p = None \<or> files = [] then p else p\<lparr>info_label := Some (fst (last files))\<rparr>))
                   @ [SingleShotCheck]\<rparr>"
  unfolding check_def assms show_messages_listing
  by (simp add: case_prod_beta)

text \<open>
  Claim C6, as the code has it. On a tick whose directory listing succeeds, every file of
  the message directory is handled in listing order: its name (not its contents) becomes
  the text of the info label when the label exists, and its removal is attempted; a
  removal that raises is printed and the file stays. The tick then goes on to the
  segmentation check and schedules the next tick.
\<close>

theorem check_messages:
  assumes "message_files w = Inr files"
  shows "\<exists>out rest. check w p = Inr out \<and>
           events out = concat (map (message_events (info_label p \<noteq> None) (remove_raises w)) (map fst files))
                        @ rest @ [SingleShotCheck] \<and>
           messages_after out = filter (\<lambda>(n, c). remove_raises w n \<noteq> None) files \<and>
           info_label (painter_after out) =
             (if info_label p = None \<or> files = [] then info_label p else Some (fst (last files)))"
proof -
  have "info_label (fst (check_segmentation w q)) = info_label q" for q :: "('a, 'b) root_painter"
    by (simp add: check_segmentation_def Let_def split: option.splits sum.splits)
  then show ?thesis
    by (simp add: check_unfold [OF assms])
qed

theorem check_messages_witness:
  "\<exists>out. check example_world example_painter = Inr out \<and>
          take 3 (events out) = [SetInfoLabelText ''Training'', SetInfoLabelText ''Stopped'',
                          PrintCaughtDelete OSError] \<and>
          last (events out) = SingleShotCheck \<and>
          messages_after out = [(''Stopped'', [])] \<and>
          info_label (painter_after out) = Some ''Stopped''"
proof -
  have m: "message_files example_world = Inr [(''Training'', ''epoch 3''), (''Stopped'', [])]"
    by (simp add: example_world_def)
  from check_messages [OF m, of example_painter]
  obtain out rest where o: "check example_world example_painter = Inr out"
    and e: "events out = concat (map (message_events (info_label example_painter \<noteq> None) (remove_raises example_world))
                 (map fst [(''Training'', ''epoch 3''), (''Stopped'', [])])) @ rest @ [SingleShotCheck]"
    and a: "messages_after out = filter (\<lambda>(n, c). remove_raises example_world n \<noteq> None) [(''Training'', ''epoch 3''), (''Stopped'', [])]"
    and i: "info_label (painter_after out) =
             (if info_label example_painter = None \<or> [(''Training'', ''epoch 3''), (''Stopped'', [])] = [] then info_label example_painter
              else Some (fst (last [(''Training'', ''epoch 3''), (''Stopped'', [])])))"
    by blast
  show ?thesis
    by (rule exI [of _ out])
       (use o e a i in \<open>simp add: example_world_def example_painter_def message_events_def\<close>)
qed

text \<open>
  Claim C6 as stated (the contents of each message file are displayed) fails: the file
  named \<open>Training\<close> holds the text \<open>epoch 3\<close>; the events of the tick set the label to
  the two file names and never to that text.
\<close>

theorem check_shows_name_counterexample:
  "map_sum id events (check example_world example_painter)
     = Inr [SetInfoLabelText ''Training'', SetInfoLabelText ''Stopped'', PrintCaughtDelete OSError,
            AxialUpdateSegSlice, UpdateCursor 0, SingleShotUpdateCursor 0, ViewerUpdateSegSlice 0,
            UpdateCursor 1, SingleShotUpdateCursor 1, SingleShotCheck]"
  by (simp add: check_unfold [of _ "[(''Training'', ''epoch 3''), (''Stopped'', [])]"]
        example_world_def example_painter_def message_events_def
        check_segmentation_def viewer_events_def Let_def)

lemma check_segmentation_loaded:
  assumes "reload_due w q path new_mtime" and "load_seg w path = Inr s"
  shows "check_segmentation w q =
           (q\<lparr>lines_to_log := lines_to_log q @ [''load_seg,fname:'' @ basename path],
              seg_data := Some s, view_state := ANNOTATING, seg_mtime := Some new_mtime,
              next_image_button_text := ''Save && Next >'', next_image_button_enabled := True\<rparr>,
            AxialUpdateSegSlice # viewer_events (viewers q))"
  using assms
  by (auto simp: check_segmentation_def reload_due_def Let_def split: option.splits)

lemma check_segmentation_load_failed:
  assumes "reload_due w q path new_mtime" and "load_seg w path = Inl e"
  shows "check_segmentation w q =
           (q\<lparr>lines_to_log := lines_to_log q @ [''load_seg,fname:'' @ basename path]\<rparr>,
            [PrintCaughtLoad e])"
  using assms
  by (auto simp: check_segmentation_def reload_due_def Let_def split: option.splits)

lemma check_segmentation_not_due:
  assumes "\<forall>path new_mtime. \<not> reload_due w q path new_mtime"
  shows "fst (check_segmentation w q) = q \<and> AxialUpdateSegSlice \<notin> set (snd (check_segmentation w q))"
  using assms
  by (auto simp: check_segmentation_def reload_due_def Let_def split: option.splits sum.splits)

lemma reload_due_info_label:
  "reload_due w (p\<lparr>info_label := l\<rparr>) path new_mtime = reload_due w p path new_mtime"
  by (simp add: reload_due_def)

lemma message_events_no_reload:
  "AxialUpdateSegSlice \<notin> set (message_events b rm m)"
  by (simp add: message_events_def split: option.splits)

text \<open>
  Claim C5, as the code has it. On a tick whose directory listing succeeds, the next tick is always
  scheduled, and: when a reload is due and \<open>load_seg\<close> returns, the segmentation is
  stored, the view state becomes \<open>ANNOTATING\<close> and the new modification time is
  recorded; when a reload is due and \<open>load_seg\<close> raises, the exception is printed and
  view state, segmentation and recorded time stay as they were; when no reload is due,
  they stay as they were, nothing is logged and nothing is reloaded.
\<close>

theorem check_reloads_segmentation:
  assumes "message_files w = Inr files"
  shows "\<exists>out. check w p = Inr out \<and> last (events out) = SingleShotCheck \<and>
     (\<forall>path new_mtime s. reload_due w p path new_mtime \<and> load_seg w path = Inr s \<longrightarrow>
        view_state (painter_after out) = ANNOTATING \<and>
        seg_data (painter_after out) = Some s \<and>
        seg_mtime (painter_after out) = Some new_mtime \<and>
        AxialUpdateSegSlice \<in> set (events out)) \<and>
     (\<forall>path new_mtime e. reload_due w p path new_mtime \<and> load_seg w path = Inl e \<longrightarrow>
        view_state (painter_after out) = view_state p \<and>
        seg_data (painter_after out) = seg_data p \<and>
        seg_mtime (painter_after out) = seg_mtime p \<and>
        PrintCaughtLoad e \<in> set (events out)) \<and>
     ((\<forall>path new_mtime. \<not> reload_due w p path new_mtime) \<longrightarrow>
        view_state (painter_after out) = view_state p \<and>
        seg_data (painter_after out) = seg_data p \<and>
        seg_mtime (painter_after out) = seg_mtime p \<and>
        lines_to_log (painter_after out) = lines_to_log p \<and>
        AxialUpdateSegSlice \<notin> set (events out))"
proof -
  define q where "q = (if info_label p = None \<or> files = [] then p
                       else p\<lparr>info_label := Some (fst (last files))\<rparr>)"
  have due: "reload_due w q path new_mtime = reload_due w p path new_mtime" for path new_mtime
    by (simp add: q_def reload_due_info_label)
  have same: "view_state q = view_state p" "seg_data q = seg_data p" "seg_mtime q = seg_mtime p"
    "lines_to_log q = lines_to_log p"
    by (simp_all add: q_def)
  define out where "out = \<lparr>painter_after = fst (check_segmentation w q),
          messages_after = filter (\<lambda>(n, c). remove_raises w n \<noteq> None) files,
          events = concat (map (message_events (info_label p \<noteq> None) (remove_raises w)) (map fst files))
                   @ snd (check_segmentation w q) @ [SingleShotCheck]\<rparr>"
  have c: "check w p = Inr out"
    unfolding q_def out_def by (rule check_unfold [OF assms])
  have loaded: "view_state (painter_after out) = ANNOTATING \<and>
        seg_data (painter_after out) = Some s \<and>
        seg_mtime (painter_after out) = Some new_mtime \<and>
        AxialUpdateSegSlice \<in> set (events out)"
    if "reload_due w p path new_mtime \<and> load_seg w path = Inr s" for path new_mtime s
    using that check_segmentation_loaded [of w q path new_mtime s] by (simp add: due out_def)
  have failed: "view_state (painter_after out) = view_state p \<and>
        seg_data (painter_after out) = seg_data p \<and>
        seg_mtime (painter_after out) = seg_mtime p \<and>
        PrintCaughtLoad e \<in> set (events out)"
    if "reload_due w p path new_mtime \<and> load_seg w path = Inl e" for path new_mtime e
    using that check_segmentation_load_failed [of w q path new_mtime e] by (simp add: due same out_def)
  have idle: "view_state (painter_after out) = view_state p \<and>
        seg_data (painter_after out) = seg_data p \<and>
        seg_mtime (painter_after out) = seg_mtime p \<and>
        lines_to_log (painter_after out) = lines_to_log p \<and>
        AxialUpdateSegSlice \<notin> set (events out)"
    if "\<forall>path new_mtime. \<not> reload_due w p path new_mtime"
    using that check_segmentation_not_due [of w q]
    by (simp add: due same message_events_no_reload out_def)
  show ?thesis
  proof (rule exI [of _ out], intro conjI)
    show "check w p = Inr out" by (rule c)
    show "last (events out) = SingleShotCheck" by (simp add: out_def)
  qed (use loaded failed idle in blast)+
qed

theorem check_reloads_segmentation_witness:
  "\<exists>out. check example_world example_painter = Inr out \<and>
          last (events out) = SingleShotCheck \<and>
          view_state (painter_after out) = ANNOTATING \<and>
          seg_data (painter_after out) = Some ''segmentation'' \<and>
          seg_mtime (painter_after out) = Some 250"
proof -
  have m: "message_files example_world = Inr [(''Training'', ''epoch 3''), (''Stopped'', [])]"
    by (simp add: example_world_def)
  have d: "reload_due example_world example_painter ''proj/segmentations/scan.nii.gz'' 250"
    by (simp add: reload_due_def example_world_def example_painter_def)
  have l: "load_seg example_world ''proj/segmentations/scan.nii.gz'' = Inr ''segmentation''"
    by (simp add: example_world_def)
  from check_reloads_segmentation [OF m, of example_painter] d l
  show ?thesis by blast
qed

text \<open>
  Claim C5 as stated (on every tick) fails: \<open>os.listdir\<close> stands outside every \<^verbatim>\<open>try\<close>.
  Here the message directory cannot be listed while a newer segmentation is on disk and
  would load: the tick ends with the exception of the listing, so nothing is reloaded,
  the view state stays as it was and the next tick is not scheduled.
\<close>

theorem check_listing_fails_counterexample:
  "reload_due (example_world\<lparr>message_files := Inl FileNotFoundError\<rparr>) example_painter
     ''proj/segmentations/scan.nii.gz'' 250 \<and>
   load_seg (example_world\<lparr>message_files := Inl FileNotFoundError\<rparr>) ''proj/segmentations/scan.nii.gz''
     = Inr ''segmentation'' \<and>
   check (example_world\<lparr>message_files := Inl FileNotFoundError\<rparr>) example_painter
     = Inl FileNotFoundError"
  by (simp add: check_def reload_due_def example_world_def example_painter_def)

section \<open>Properties of tiled inference\<close>

lemma slice_bounds_in_range:
  "0 \<le> s \<Longrightarrow> 0 \<le> d \<Longrightarrow> s + d \<le> int n \<Longrightarrow> slice_bounds n s (s + d) = (nat s, nat d)"
  by (auto simp: slice_bounds_def slice_norm_def min_def)

lemma extract_tile_in_bounds:
  assumes "in_bounds img in_tile_shape c"
  shows "extract_tile env img in_tile_shape c = Inr (tile_at env img in_tile_shape c)"
  using assms
  by (auto simp: extract_tile_def tile_at_def in_bounds_def slice3_def slice_bounds_in_range
           split: prod.splits)

lemma extract_batch_in_bounds:
  assumes "\<forall>c \<in> set cs. in_bounds img in_tile_shape c"
  shows "extract_batch env img in_tile_shape cs = Inr (map (tile_at env img in_tile_shape) cs)"
  using assms
  by (induction cs) (simp_all add: extract_tile_in_bounds and_then_def)

lemma length_batch_outputs:
  assumes "\<forall>b. length (f b) = length b"
  shows "length (batch_outputs f n xs) = (if n = 0 then 0 else length xs)"
  using assms
proof (induction f n xs rule: batch_outputs.induct)
  case (1 f n xs)
  show ?case
  proof (cases "n = 0 \<or> xs = []")
    case True
    then show ?thesis by (auto simp: batch_outputs.simps [of f n xs])
  next
    case False
    then show ?thesis
      using 1 by (simp add: batch_outputs.simps [of f n xs])
  qed
qed

lemma nth_batch_outputs:
  assumes "\<forall>b. length (f b) = length b" and "0 < n" and "k < length xs"
  shows "batch_outputs f n xs ! k = f (take n (drop (k div n * n) xs)) ! (k mod n)"
  using assms
proof (induction f n xs arbitrary: k rule: batch_outputs.induct)
  case (1 f n xs)
  have ne: "\<not> (n = 0 \<or> xs = [])" using 1 by auto
  have unf: "batch_outputs f n xs = f (take n xs) @ batch_outputs f n (drop n xs)"
    using ne by (simp add: batch_outputs.simps [of f n xs])
  have len: "length (f (take n xs)) = min n (length xs)"
    using 1 by simp
  show ?case
  proof (cases "k < n")
    case True
    then show ?thesis
      using 1 by (simp add: unf nth_append len)
  next
    case False
    then have kn: "n \<le> k" by simp
    have lt: "k - n < length (drop n xs)" using 1 kn by simp
    have ih: "batch_outputs f n (drop n xs) ! (k - n)
              = f (take n (drop ((k - n) div n * n) (drop n xs))) ! ((k - n) mod n)"
      using "1.IH" [OF ne "1.prems"(1) "1.prems"(2) lt] .
    have d: "(k - n) div n * n + n = k div n * n"
      using kn \<open>0 < n\<close> by (simp add: le_div_geq)
    have m: "(k - n) mod n = k mod n"
      using kn by (simp add: le_mod_geq)
    have "batch_outputs f n xs ! k = batch_outputs f n (drop n xs) ! (k - n)"
      using kn 1 by (simp add: unf nth_append len)
    then show ?thesis
      using ih d m by (simp add: add.commute)
  qed
qed

lemma length_with_tiles [simp]: "length (with_tiles acc g) = length acc"
  by (simp add: with_tiles_def)

lemma nth_with_tiles: "i < length acc \<Longrightarrow> with_tiles acc g ! i = acc ! i @ g i"
  by (simp add: with_tiles_def nth_enumerate_eq)

lemma with_tiles_twice: "with_tiles (with_tiles acc g) h = with_tiles acc (\<lambda>i. g i @ h i)"
  by (rule nth_equalityI) (simp_all add: nth_with_tiles)

lemma with_tiles_nothing: "with_tiles acc (\<lambda>i. []) = acc"
  by (rule nth_equalityI) (simp_all add: nth_with_tiles)

lemma append_class_tiles_ok:
  assumes "length acc = t_chan outputs div 2"
  shows "append_class_tiles acc outputs = Inr (with_tiles acc (\<lambda>i. class_tiles outputs (2 * i)))"
proof -
  have "map (\<lambda>(i, tiles). if i < t_chan outputs div 2 then tiles @ class_tiles outputs (2 * i) else tiles)
            (enumerate 0 acc)
        = with_tiles acc (\<lambda>i. class_tiles outputs (2 * i))"
    using assms by (intro nth_equalityI) (simp_all add: nth_with_tiles nth_enumerate_eq)
  then show ?thesis
    using assms by (simp add: append_class_tiles_def)
qed

lemma segment_tiles_from:
  assumes bs: "0 < batch_size"
    and fits: "\<forall>c \<in> set coords. in_bounds img in_tile_shape c"
    and net: "\<forall>batch. t_batch (cnn batch) = length batch \<and> t_chan (cnn batch) = n_chan"
    and acc: "length acc = n_chan div 2"
  shows "segment_tiles env cnn img batch_size in_tile_shape coords coord_idx (Some acc)
         = Inr (Some (with_tiles acc (\<lambda>i. batch_outputs (class_batch env cnn img in_tile_shape i)
                                              (nat batch_size) (drop coord_idx coords))))"
  using acc
proof (induction "length coords - coord_idx" arbitrary: coord_idx acc rule: less_induct)
  case less
  show ?case
  proof (cases "coord_idx < length coords")
    case False
    then have "drop coord_idx coords = []" by simp
    then show ?thesis
      using False
      by (subst segment_tiles.simps) (simp add: batch_outputs.simps [of _ _ "[]"] with_tiles_nothing)
  next
    case True
    define batch where "batch = take (nat batch_size) (drop coord_idx coords)"
    have ne: "batch \<noteq> []" using True bs by (simp add: batch_def)
    have sub: "set batch \<subseteq> set coords"
      unfolding batch_def by (meson set_take_subset set_drop_subset subset_trans)
    have ex: "extract_batch env img in_tile_shape batch = Inr (map (tile_at env img in_tile_shape) batch)"
      using fits sub by (intro extract_batch_in_bounds) blast
    define outputs where "outputs = cnn (pad_channels (map (tile_at env img in_tile_shape) batch))"
    have ch: "t_chan outputs = n_chan" using net by (simp add: outputs_def)
    define acc' where "acc' = with_tiles acc (\<lambda>i. class_tiles outputs (2 * i))"
    have app: "append_class_tiles acc outputs = Inr acc'"
      using less.prems ch by (simp add: append_class_tiles_ok acc'_def)
    have len': "length acc' = n_chan div 2" using less.prems by (simp add: acc'_def)
    have lb: "0 < length batch" using ne by simp
    have dec: "length coords - (coord_idx + length batch) < length coords - coord_idx"
      using True lb by arith
    have rest: "drop (coord_idx + length batch) coords = drop (nat batch_size) (drop coord_idx coords)"
      by (cases "nat batch_size \<le> length coords - coord_idx") (simp_all add: batch_def add.commute min_def)
    have unf: "batch_outputs (class_batch env cnn img in_tile_shape i) (nat batch_size) (drop coord_idx coords)
               = class_tiles outputs (2 * i)
                 @ batch_outputs (class_batch env cnn img in_tile_shape i) (nat batch_size)
                     (drop (coord_idx + length batch) coords)" for i
    proof -
      have "batch_outputs (class_batch env cnn img in_tile_shape i) (nat batch_size) (drop coord_idx coords)
            = class_batch env cnn img in_tile_shape i batch
              @ batch_outputs (class_batch env cnn img in_tile_shape i) (nat batch_size)
                  (drop (nat batch_size) (drop coord_idx coords))"
        using True bs by (subst batch_outputs.simps) (simp add: batch_def)
      then show ?thesis
        unfolding rest by (simp add: class_batch_def outputs_def)
    qed
    have "segment_tiles env cnn img batch_size in_tile_shape coords coord_idx (Some acc)
          = segment_tiles env cnn img batch_size in_tile_shape coords (coord_idx + length batch) (Some acc')"
      using True ne ex app
      by (subst segment_tiles.simps) (simp add: batch_def [symmetric] outputs_def [symmetric])
    also have "\<dots> = Inr (Some (with_tiles acc' (\<lambda>i. batch_outputs (class_batch env cnn img in_tile_shape i)
                                              (nat batch_size) (drop (coord_idx + length batch) coords))))"
      by (rule less.hyps [OF dec len'])
    finally show ?thesis
      by (simp add: acc'_def with_tiles_twice unf)
  qed
qed

lemma segment_tiles_start:
  assumes "coords \<noteq> []" and "\<forall>batch. t_chan (cnn batch) = n_chan"
  shows "segment_tiles env cnn img batch_size in_tile_shape coords 0 None
         = segment_tiles env cnn img batch_size in_tile_shape coords 0 (Some (replicate (n_chan div 2) []))"
  using assms
  by (subst (1 2) segment_tiles.simps) (simp split: sum.splits)

lemma nth_class_tiles:
  "b < t_batch outputs \<Longrightarrow> class_tiles outputs class_idx ! b = class_tile outputs class_idx b"
  by (simp add: class_tiles_def)

lemma segment_tiles_result:
  assumes bs: "0 < batch_size"
    and fits: "\<forall>c \<in> set coords. in_bounds img in_tile_shape c"
    and net: "\<forall>batch. t_batch (cnn batch) = length batch \<and> t_chan (cnn batch) = n_chan"
    and ne: "coords \<noteq> []"
  shows "\<exists>tiles. segment_tiles env cnn img batch_size in_tile_shape coords 0 None = Inr (Some tiles) \<and>
           length tiles = n_chan div 2 \<and>
           (\<forall>i < n_chan div 2. length (tiles ! i) = length coords \<and>
              (\<forall>n < length coords.
                 tiles ! i ! n =
                   class_tile (cnn (pad_channels (map (tile_at env img in_tile_shape)
                                 (take (nat batch_size) (drop (n div nat batch_size * nat batch_size) coords)))))
                              (2 * i) (n mod nat batch_size)))"
proof -
  let ?f = "\<lambda>i. class_batch env cnn img in_tile_shape i"
  define tiles where "tiles = with_tiles (replicate (n_chan div 2) [])
                                (\<lambda>i. batch_outputs (?f i) (nat batch_size) coords)"
  have lenf: "\<forall>b. length (?f i b) = length b" for i
    using net by (simp add: class_batch_def class_tiles_def pad_channels_def)
  have run: "segment_tiles env cnn img batch_size in_tile_shape coords 0 None = Inr (Some tiles)"
  proof -
    have "segment_tiles env cnn img batch_size in_tile_shape coords 0 None
          = segment_tiles env cnn img batch_size in_tile_shape coords 0 (Some (replicate (n_chan div 2) []))"
      by (rule segment_tiles_start [OF ne]) (use net in simp)
    also have "\<dots> = Inr (Some tiles)"
      unfolding tiles_def
      using segment_tiles_from [OF bs fits net, of "replicate (n_chan div 2) []" env 0] by simp
    finally show ?thesis .
  qed
  have nb: "0 < nat batch_size" using bs by simp
  have entry: "length (tiles ! i) = length coords \<and>
              (\<forall>n < length coords.
                 tiles ! i ! n =
                   class_tile (cnn (pad_channels (map (tile_at env img in_tile_shape)
                                 (take (nat batch_size) (drop (n div nat batch_size * nat batch_size) coords)))))
                              (2 * i) (n mod nat batch_size))"
    if i: "i < n_chan div 2" for i
  proof (intro conjI allI impI)
    have ti: "tiles ! i = batch_outputs (?f i) (nat batch_size) coords"
      using i by (simp add: tiles_def nth_with_tiles)
    show "length (tiles ! i) = length coords"
      using nb by (simp add: ti length_batch_outputs [OF lenf])
    fix n assume n: "n < length coords"
    let ?batch = "take (nat batch_size) (drop (n div nat batch_size * nat batch_size) coords)"
    have "n div nat batch_size * nat batch_size + n mod nat batch_size = n" by simp
    then have "n mod nat batch_size < length coords - n div nat batch_size * nat batch_size"
      using n by arith
    moreover have "n mod nat batch_size < nat batch_size" using nb by simp
    ultimately have inb: "n mod nat batch_size < length ?batch" by simp
    have "tiles ! i ! n = ?f i ?batch ! (n mod nat batch_size)"
      by (simp add: ti nth_batch_outputs [OF lenf nb n])
    also have "\<dots> = class_tile (cnn (pad_channels (map (tile_at env img in_tile_shape) ?batch)))
                              (2 * i) (n mod nat batch_size)"
      unfolding class_batch_def
      by (rule nth_class_tiles) (use inb net in \<open>simp add: pad_channels_def\<close>)
    finally show "tiles ! i ! n = class_tile (cnn (pad_channels (map (tile_at env img in_tile_shape) ?batch)))
                              (2 * i) (n mod nat batch_size)" .
  qed
  show ?thesis
    using run entry by (intro exI [of _ tiles]) (simp add: tiles_def)
qed

lemma example_plan:
  "plan_coords (1, 2, 2) (1, 1, 1) = Inr [(0, 0, 0), (1, 0, 0), (0, 1, 0), (1, 1, 0)]"
  by (simp add: plan_coords_def tile_starts_def)

lemma aligned_tilewise:
  assumes al: "\<forall>n < length coords.
                 ts ! n = class_tile (cnn (pad_channels (map T (take b (drop (n div b * b) coords)))))
                            class_idx (n mod b)"
    and len: "length ts = length coords" and b: "0 < b"
    and tw: "\<forall>batch k. k < length batch \<longrightarrow> t_vol (cnn batch) k = g (batch ! k)"
  shows "ts = map (\<lambda>c. vol_map2 predicted (g [T c, zeros_like (T c), zeros_like (T c)] class_idx)
                                          (g [T c, zeros_like (T c), zeros_like (T c)] (class_idx + 1)))
                  coords"
proof (rule nth_equalityI)
  show "length ts = length (map (\<lambda>c. vol_map2 predicted (g [T c, zeros_like (T c), zeros_like (T c)] class_idx)
                                          (g [T c, zeros_like (T c), zeros_like (T c)] (class_idx + 1))) coords)"
    using len by simp
next
  fix n assume "n < length ts"
  then have n: "n < length coords" using len by simp
  let ?batch = "take b (drop (n div b * b) coords)"
  have "n div b * b + n mod b = n" by simp
  then have "n mod b < length coords - n div b * b" using n by arith
  moreover have "n mod b < b" using b by simp
  ultimately have inb: "n mod b < length ?batch" by simp
  have el: "?batch ! (n mod b) = coords ! n"
  proof -
    have "?batch ! (n mod b) = drop (n div b * b) coords ! (n mod b)"
      using inb by simp
    also have "\<dots> = coords ! (n div b * b + n mod b)"
    proof (rule nth_drop)
      show "n div b * b \<le> length coords"
        using n div_times_less_eq_dividend [of n b] by arith
    qed
    finally show ?thesis by simp
  qed
  have "pad_channels (map T ?batch) ! (n mod b)
          = [T (coords ! n), zeros_like (T (coords ! n)), zeros_like (T (coords ! n))]"
    using inb el by (simp add: pad_channels_def)
  moreover have "n mod b < length (pad_channels (map T ?batch))"
    using inb by (simp add: pad_channels_def)
  ultimately have "t_vol (cnn (pad_channels (map T ?batch))) (n mod b)
          = g [T (coords ! n), zeros_like (T (coords ! n)), zeros_like (T (coords ! n))]"
    using tw by metis
  then show "ts ! n = map (\<lambda>c. vol_map2 predicted (g [T c, zeros_like (T c), zeros_like (T c)] class_idx)
                                          (g [T c, zeros_like (T c), zeros_like (T c)] (class_idx + 1))) coords ! n"
    using al n by (simp add: class_tile_def)
qed

text \<open>
  Claim C1. When the assertions on the image size hold, the planner returns a non-empty
  list of coordinates that are in bounds, the batch size is positive and the network
  returns one output per input tile with a fixed number of channels, the loop of
  \<open>segment_3d\<close> ends with one accumulator per class; each accumulator has one tile per
  coordinate, and its tile number \<open>n\<close> is the thresholded output, in the slot
  \<open>n mod batch_size\<close>, of the network run on the batch that holds the patch of
  coordinate number \<open>n\<close>. These accumulators are what \<open>segment_3d\<close> reconstructs from.
  For a network whose output for a batch element depends on that element alone, tile
  number \<open>n\<close> is the thresholded output for the patch at coordinate number \<open>n\<close>,
  whatever the batch size.
\<close>

theorem segment_3d_tiles_aligned:
  assumes sizes: "in_d \<le> int (vd img)" "in_h \<le> int (vh img)" "in_w \<le> int (vw img)"
    and plan: "get_coords_3d env (int (vd img) - (in_d - out_d), int (vh img) - (in_h - out_h),
                                  int (vw img) - (in_h - out_h)) (out_d, out_h, out_w) = Inr coords"
    and ne: "coords \<noteq> []"
    and fits: "\<forall>c \<in> set coords. in_bounds img (in_d, in_h, in_w) c"
    and bs: "0 < batch_size"
    and net: "\<forall>batch. t_batch (cnn batch) = length batch \<and> t_chan (cnn batch) = n_chan"
  shows "\<exists>tiles.
           segment_tiles env cnn img batch_size (in_d, in_h, in_w) coords 0 None = Inr (Some tiles) \<and>
           segment_3d env cnn img batch_size (in_d, in_h, in_w) (out_d, out_h, out_w)
             = reconstruct_all env tiles coords
                 (int (vd img) - (in_d - out_d), int (vh img) - (in_h - out_h), int (vw img) - (in_h - out_h)) \<and>
           length tiles = n_chan div 2 \<and>
           (\<forall>i < n_chan div 2. length (tiles ! i) = length coords \<and>
              (\<forall>n < length coords.
                 tiles ! i ! n =
                   class_tile (cnn (pad_channels (map (tile_at env img (in_d, in_h, in_w))
                                 (take (nat batch_size) (drop (n div nat batch_size * nat batch_size) coords)))))
                              (2 * i) (n mod nat batch_size))) \<and>
           (\<forall>g. (\<forall>batch k. k < length batch \<longrightarrow> t_vol (cnn batch) k = g (batch ! k)) \<longrightarrow>
              (\<forall>i < n_chan div 2.
                 tiles ! i =
                   map (\<lambda>c. let t = tile_at env img (in_d, in_h, in_w) c in
                          vol_map2 predicted (g [t, zeros_like t, zeros_like t] (2 * i))
                                             (g [t, zeros_like t, zeros_like t] (2 * i + 1)))
                       coords))"
proof -
  from segment_tiles_result [OF bs fits net ne, of env]
  obtain tiles where run: "segment_tiles env cnn img batch_size (in_d, in_h, in_w) coords 0 None = Inr (Some tiles)"
    and rest: "length tiles = n_chan div 2 \<and>
           (\<forall>i < n_chan div 2. length (tiles ! i) = length coords \<and>
              (\<forall>n < length coords.
                 tiles ! i ! n =
                   class_tile (cnn (pad_channels (map (tile_at env img (in_d, in_h, in_w))
                                 (take (nat batch_size) (drop (n div nat batch_size * nat batch_size) coords)))))
                              (2 * i) (n mod nat batch_size)))"
    by blast
  have "segment_3d env cnn img batch_size (in_d, in_h, in_w) (out_d, out_h, out_w)
             = reconstruct_all env tiles coords
                 (int (vd img) - (in_d - out_d), int (vh img) - (in_h - out_h), int (vw img) - (in_h - out_h))"
    using sizes plan run by (simp add: segment_3d_def and_then_def Let_def)
  moreover have "tiles ! i =
                   map (\<lambda>c. let t = tile_at env img (in_d, in_h, in_w) c in
                          vol_map2 predicted (g [t, zeros_like t, zeros_like t] (2 * i))
                                             (g [t, zeros_like t, zeros_like t] (2 * i + 1)))
                       coords"
    if tw: "\<forall>batch k. k < length batch \<longrightarrow> t_vol (cnn batch) k = g (batch ! k)" and i: "i < n_chan div 2"
    for g i
  proof -
    have al: "\<forall>n < length coords.
                 tiles ! i ! n =
                   class_tile (cnn (pad_channels (map (tile_at env img (in_d, in_h, in_w))
                                 (take (nat batch_size) (drop (n div nat batch_size * nat batch_size) coords)))))
                              (2 * i) (n mod nat batch_size)"
      and len: "length (tiles ! i) = length coords"
      using rest i by blast+
    have "0 < nat batch_size" using bs by simp
    from aligned_tilewise [OF al len this tw] show ?thesis by (simp add: Let_def)
  qed
  ultimately show ?thesis
    using run rest by (intro exI [of _ tiles]) blast
qed

lemma predicted_iff: "predicted bg fg = (if bg < fg then 1 else 0)"
proof -
  have pos: "0 < exp bg + exp fg" by (simp add: add_pos_pos)
  have "(1 / 2 < exp fg / (exp bg + exp fg)) = (exp bg + exp fg < 2 * exp fg)"
    using pos by (simp add: field_simps)
  also have "\<dots> = (bg < fg)" by simp
  finally show ?thesis by (simp add: predicted_def softmax_fg_def)
qed

theorem segment_3d_tiles_aligned_witness:
  "\<exists>tiles.
     segment_tiles example_env (centre_cnn 0 1) example_image 3 (1, 3, 3)
        [(0, 0, 0), (1, 0, 0), (0, 1, 0), (1, 1, 0)] 0 None = Inr (Some tiles) \<and>
     segment_3d example_env (centre_cnn 0 1) example_image 3 (1, 3, 3) (1, 1, 1)
        = reconstruct_all example_env tiles [(0, 0, 0), (1, 0, 0), (0, 1, 0), (1, 1, 0)] (1, 2, 2) \<and>
     length tiles = 1 \<and> length (tiles ! 0) = 4 \<and>
     vox (tiles ! 0 ! 0) 0 0 0 = 0 \<and> vox (tiles ! 0 ! 3) 0 0 0 = 1"
proof -
  let ?coords = "[(0, 0, 0), (1, 0, 0), (0, 1, 0), (1, 1, 0)] :: coord list"
  have sizes: "1 \<le> int (vd example_image)" "3 \<le> int (vh example_image)" "3 \<le> int (vw example_image)"
    by (simp_all add: example_image_def)
  have plan: "get_coords_3d example_env
                (int (vd example_image) - (1 - 1), int (vh example_image) - (3 - 1),
                 int (vw example_image) - (3 - 1)) (1, 1, 1) = Inr ?coords"
    by (simp add: example_env_def example_image_def example_plan)
  have fits: "\<forall>c \<in> set ?coords. in_bounds example_image (1, 3, 3) c"
    by (simp add: in_bounds_def example_image_def)
  have net: "\<forall>batch. t_batch (centre_cnn 0 1 batch) = length batch \<and> t_chan (centre_cnn 0 1 batch) = 2"
    by (simp add: centre_cnn_def)
  from segment_3d_tiles_aligned [OF sizes plan _ fits _ net, of 3]
  obtain tiles where
    run: "segment_tiles example_env (centre_cnn 0 1) example_image 3 (1, 3, 3) ?coords 0 None = Inr (Some tiles)"
    and seg: "segment_3d example_env (centre_cnn 0 1) example_image 3 (1, 3, 3) (1, 1, 1)
        = reconstruct_all example_env tiles ?coords
            (int (vd example_image) - (1 - 1), int (vh example_image) - (3 - 1), int (vw example_image) - (3 - 1))"
    and len: "length tiles = 2 div 2"
    and al: "\<forall>i < 2 div 2. length (tiles ! i) = length ?coords \<and>
              (\<forall>n < length ?coords.
                 tiles ! i ! n =
                   class_tile (centre_cnn 0 1 (pad_channels (map (tile_at example_env example_image (1, 3, 3))
                                 (take (nat 3) (drop (n div nat 3 * nat 3) ?coords)))))
                              (2 * i) (n mod nat 3))"
    by auto
  have l0: "length (tiles ! 0) = 4" using al by simp
  have t0: "tiles ! 0 ! 0 = class_tile (centre_cnn 0 1 (pad_channels (map (tile_at example_env example_image (1, 3, 3))
                                 (take 3 ?coords)))) 0 0"
    using al [rule_format, of 0, THEN conjunct2, rule_format, of 0] by simp
  have t3: "tiles ! 0 ! 3 = class_tile (centre_cnn 0 1 (pad_channels (map (tile_at example_env example_image (1, 3, 3))
                                 [(1, 1, 0)]))) 0 0"
    using al [rule_format, of 0, THEN conjunct2, rule_format, of 3] by simp
  have v0: "vox (tiles ! 0 ! 0) 0 0 0 = 0"
    unfolding t0
    by (simp add: class_tile_def vol_map2_def centre_cnn_def pad_channels_def tile_at_def
          example_env_def example_image_def slice3_def slice_bounds_def slice_norm_def predicted_iff)
  have v3: "vox (tiles ! 0 ! 3) 0 0 0 = 1"
    unfolding t3
    by (simp add: class_tile_def vol_map2_def centre_cnn_def pad_channels_def tile_at_def
          example_env_def example_image_def slice3_def slice_bounds_def slice_norm_def predicted_iff)
  show ?thesis
    using run seg len l0 v0 v3 by (intro exI [of _ tiles]) (simp add: example_image_def)
qed

lemma reconstruct_all_returns:
  assumes "\<forall>t. \<exists>m. reconstruct_from_tiles env t coords out_im_shape = Inr m \<and> vol_shape m = out_im_shape"
  shows "\<exists>maps. reconstruct_all env tiles coords out_im_shape = Inr maps \<and>
                length maps = length tiles \<and> (\<forall>m \<in> set maps. vol_shape m = out_im_shape)"
proof (induction tiles)
  case Nil
  then show ?case by simp
next
  case (Cons t tiles)
  from assms obtain m where m: "reconstruct_from_tiles env t coords out_im_shape = Inr m"
    "vol_shape m = out_im_shape" by blast
  from Cons obtain maps where maps: "reconstruct_all env tiles coords out_im_shape = Inr maps"
    "length maps = length tiles" "\<forall>m \<in> set maps. vol_shape m = out_im_shape" by blast
  show ?case
    using m maps by (intro exI [of _ "m # maps"]) (simp add: and_then_def)
qed

lemma segment_3d_returns:
  assumes sizes: "in_d \<le> int (vd img)" "in_h \<le> int (vh img)" "in_w \<le> int (vw img)"
    and shp: "out_im_shape = (int (vd img) - (in_d - out_d), int (vh img) - (in_h - out_h),
                              int (vw img) - (in_h - out_h))"
    and plan: "get_coords_3d env out_im_shape (out_d, out_h, out_w) = Inr coords"
    and ne: "coords \<noteq> []"
    and fits: "\<forall>c \<in> set coords. in_bounds img (in_d, in_h, in_w) c"
    and bs: "0 < batch_size"
    and net: "\<forall>batch. t_batch (cnn batch) = length batch \<and> t_chan (cnn batch) = n_chan"
    and recon: "\<forall>t. \<exists>m. reconstruct_from_tiles env t coords out_im_shape = Inr m \<and> vol_shape m = out_im_shape"
  shows "\<exists>maps. segment_3d env cnn img batch_size (in_d, in_h, in_w) (out_d, out_h, out_w) = Inr maps \<and>
                length maps = n_chan div 2 \<and> (\<forall>m \<in> set maps. vol_shape m = out_im_shape)"
proof -
  from segment_tiles_result [OF bs fits net ne, of env]
  obtain tiles where run: "segment_tiles env cnn img batch_size (in_d, in_h, in_w) coords 0 None = Inr (Some tiles)"
    and len: "length tiles = n_chan div 2"
    by blast
  have "segment_3d env cnn img batch_size (in_d, in_h, in_w) (out_d, out_h, out_w)
             = reconstruct_all env tiles coords out_im_shape"
    using sizes plan run by (simp add: segment_3d_def and_then_def Let_def shp)
  then show ?thesis
    using reconstruct_all_returns [OF recon, of tiles] len by auto
qed

lemma example_segment_3d:
  "\<exists>maps. segment_3d example_env (centre_cnn 0 1) example_image 3 (1, 3, 3) (1, 1, 1) = Inr maps \<and>
          length maps = 1 \<and> (\<forall>m \<in> set maps. vol_shape m = (1, 2, 2))"
proof -
  have "\<exists>maps. segment_3d example_env (centre_cnn 0 1) example_image 3 (1, 3, 3) (1, 1, 1) = Inr maps \<and>
          length maps = 2 div 2 \<and> (\<forall>m \<in> set maps. vol_shape m = (1, 2, 2))"
  proof (rule segment_3d_returns)
    show "get_coords_3d example_env (1, 2, 2) (1, 1, 1) = Inr [(0, 0, 0), (1, 0, 0), (0, 1, 0), (1, 1, 0)]"
      by (simp add: example_env_def example_plan)
    show "\<forall>c \<in> set [(0, 0, 0), (1, 0, 0), (0, 1, 0), (1, 1, 0)]. in_bounds example_image (1, 3, 3) c"
      by (simp add: in_bounds_def example_image_def)
    show "\<forall>t. \<exists>m. reconstruct_from_tiles example_env t [(0, 0, 0), (1, 0, 0), (0, 1, 0), (1, 1, 0)] (1, 2, 2) = Inr m
              \<and> vol_shape m = (1, 2, 2)"
      by (simp add: example_env_def scatter_tiles_def vol_shape_def)
  qed (simp_all add: example_image_def centre_cnn_def)
  then show ?thesis by simp
qed

text \<open>
  Claim C8, as the code has it. An image smaller than the input tile on some axis makes
  one of the assertions at the head of \<open>segment_3d\<close> fail: the function raises
  \<open>AssertionError\<close> before a coordinate is planned or a tile is cut.
\<close>

theorem segment_3d_small_image:
  assumes "int (vd img) < in_d \<or> int (vh img) < in_h \<or> int (vw img) < in_w"
  shows "segment_3d env cnn img batch_size (in_d, in_h, in_w) out_tile_shape = Inl AssertionError"
  using assms by (auto simp: segment_3d_def)

theorem segment_3d_small_image_witness:
  "segment_3d example_env (centre_cnn 0 1) example_image 3 (2, 3, 3) (2, 1, 1) = Inl AssertionError"
  by (rule segment_3d_small_image) (simp add: example_image_def)

text \<open>
  Claim C8 as stated (the failure is a \<open>ShapeError\<close>) fails: an image of height 4 and an
  input tile of height 5 give \<open>AssertionError\<close>.
\<close>

theorem segment_3d_shape_error_counterexample:
  "segment_3d example_env (centre_cnn 0 1) example_image 3 (1, 5, 3) (1, 3, 1) = Inl AssertionError \<and>
   segment_3d example_env (centre_cnn 0 1) example_image 3 (1, 5, 3) (1, 3, 1) \<noteq> Inl ShapeError"
  by (simp add: segment_3d_def example_image_def)

lemma and_then_Inr: "and_then (Inr v) k = k v"
  by (simp add: and_then_def)


lemma py_getitem_from_end:
  "0 < k \<Longrightarrow> k \<le> length xs \<Longrightarrow> py_getitem xs (- int k) = Inr (xs ! (length xs - k))"
  by (auto simp: py_getitem_def nat_diff_distrib' of_nat_diff)



lemma parse_crops_long:
  assumes "parts = str_split CHR ''_'' (str_replace ''.nii.gz'' [] fname)" and "8 \<le> length parts"
  shows "parse_crops fname =
     and_then (py_int (parts ! (length parts - 8))) (\<lambda>x_crop_start.
     and_then (py_int (parts ! (length parts - 7))) (\<lambda>x_crop_end.
     and_then (py_int (parts ! (length parts - 5))) (\<lambda>y_crop_start.
     and_then (py_int (parts ! (length parts - 4))) (\<lambda>y_crop_end.
     and_then (py_int (parts ! (length parts - 2))) (\<lambda>z_crop_start.
     and_then (py_int (parts ! (length parts - 1))) (\<lambda>z_crop_end.
       Inr ((x_crop_start, x_crop_end), (y_crop_start, y_crop_end), (z_crop_start, z_crop_end))))))))"
proof -
  have g: "py_getitem parts (- int k) = Inr (parts ! (length parts - k))" if "0 < k" "k \<le> 8" for k
    using that assms(2) by (intro py_getitem_from_end) simp_all
  show ?thesis
    using g [of 8] g [of 7] g [of 5] g [of 4] g [of 2] g [of 1]
    by (simp add: parse_crops_def assms(1) [symmetric] and_then_Inr)
qed

lemma ensemble_segment_3d_bounded:
  assumes "load_model env cache model_path classes = (cache', Inr cnn)"
    and "segment_3d env cnn img batch_size (in_d, in_w, in_w) (out_d, out_w, out_w) = Inr pred_maps"
  shows "ensemble_segment_3d env cache (model_path # others) img fname batch_size in_w out_w in_d out_d classes True
         = (cache', and_then (parse_crops fname) (\<lambda>(xc, yc, zc).
              Inr (map (\<lambda>pred_map. crop_pred_map pred_map
                          (fst zc - (in_d - out_d) div 2, snd zc - (in_d - out_d) div 2)
                          (fst yc - (in_w - out_w) div 2, snd yc - (in_w - out_w) div 2)
                          (fst xc - (in_w - out_w) div 2, snd xc - (in_w - out_w) div 2))
                       pred_maps)))"
  using assms by (simp add: ensemble_segment_3d_def py_getitem_def and_then_Inr Let_def)


lemma example_load_model:
  "load_model example_env None ''models/000001_1600000000.pkl'' classes
     = (Some (''models/000001_1600000000.pkl'', centre_cnn 0 1), Inr (centre_cnn 0 1))"
  by (simp add: load_model_def example_env_def)

lemma crop_pred_map_in_range:
  assumes "0 \<le> zs" "0 \<le> ze" "zs + ze \<le> int (vd m)"
    and "0 \<le> ys" "0 \<le> ye" "ys + ye \<le> int (vh m)"
    and "0 \<le> xs" "0 \<le> xe" "xs + xe \<le> int (vw m)"
  shows "vol_shape (crop_pred_map m (zs, ze) (ys, ye) (xs, xe))
           = (int (vd m) - zs - ze, int (vh m) - ys - ye, int (vw m) - xs - xe) \<and>
         (\<forall>z y x. vox (crop_pred_map m (zs, ze) (ys, ye) (xs, xe)) z y x
                    = vox m (nat zs + z) (nat ys + y) (nat xs + x))"
proof -
  have b: "slice_bounds n s (int n - e) = (nat s, nat (int n - e - s))"
    if "0 \<le> s" "0 \<le> e" "s + e \<le> int n" for n s e
    using slice_bounds_in_range [of s "int n - e - s" n] that by simp
  show ?thesis
    using assms by (simp add: crop_pred_map_def slice3_def b vol_shape_def)
qed

text \<open>
  Claim C2. For a bounded volume whose name, without the extension and split at
  underscores, ends in the eight tokens \<open>xs, xe, _, ys, ye, _, zs, ze\<close> with integer
  literals at the six pad positions, every class map is sliced with the start
  \<open>ps - m\<close> and the stop \<open>shape - (pe - m)\<close> on each axis, where \<open>m\<close> is half the
  difference of the input and output patch extents of that axis. When these amounts
  are not negative and fit, the result has the shape reduced by them and holds the voxels
  of the map shifted by the start amounts. With equal input and output patch shapes
  the amounts are the pad values themselves.
\<close>

theorem ensemble_segment_3d_bounded_crop:
  assumes load: "load_model env cache model_path classes = (cache', Inr cnn)"
    and seg: "segment_3d env cnn img batch_size (in_d, in_w, in_w) (out_d, out_w, out_w) = Inr pred_maps"
    and toks: "str_split CHR ''_'' (str_replace ''.nii.gz'' [] fname)
                 = before @ [txs, txe, name_y, tys, tye, name_z, tzs, tze]"
    and ints: "py_int txs = Inr xs" "py_int txe = Inr xe" "py_int tys = Inr ys" "py_int tye = Inr ye"
              "py_int tzs = Inr zs" "py_int tze = Inr ze"
    and mz: "mz = (in_d - out_d) div 2" and mw: "mw = (in_w - out_w) div 2"
  shows "ensemble_segment_3d env cache (model_path # others) img fname batch_size in_w out_w in_d out_d classes True
           = (cache', Inr (map (\<lambda>pred_map. crop_pred_map pred_map (zs - mz, ze - mz) (ys - mw, ye - mw)
                                               (xs - mw, xe - mw)) pred_maps)) \<and>
         (\<forall>pred_map \<in> set pred_maps.
            0 \<le> zs - mz \<and> 0 \<le> ze - mz \<and> (zs - mz) + (ze - mz) \<le> int (vd pred_map) \<and>
            0 \<le> ys - mw \<and> 0 \<le> ye - mw \<and> (ys - mw) + (ye - mw) \<le> int (vh pred_map) \<and>
            0 \<le> xs - mw \<and> 0 \<le> xe - mw \<and> (xs - mw) + (xe - mw) \<le> int (vw pred_map) \<longrightarrow>
            vol_shape (crop_pred_map pred_map (zs - mz, ze - mz) (ys - mw, ye - mw) (xs - mw, xe - mw))
              = (int (vd pred_map) - (zs - mz) - (ze - mz),
                 int (vh pred_map) - (ys - mw) - (ye - mw),
                 int (vw pred_map) - (xs - mw) - (xe - mw)) \<and>
            (\<forall>z y x. vox (crop_pred_map pred_map (zs - mz, ze - mz) (ys - mw, ye - mw) (xs - mw, xe - mw)) z y x
                       = vox pred_map (nat (zs - mz) + z) (nat (ys - mw) + y) (nat (xs - mw) + x))) \<and>
         (in_d = out_d \<and> in_w = out_w \<longrightarrow>
            ensemble_segment_3d env cache (model_path # others) img fname batch_size in_w out_w in_d out_d classes True
              = (cache', Inr (map (\<lambda>pred_map. crop_pred_map pred_map (zs, ze) (ys, ye) (xs, xe)) pred_maps)))"
proof -
  define parts where "parts = str_split CHR ''_'' (str_replace ''.nii.gz'' [] fname)"
  have p: "parts = before @ [txs, txe, name_y, tys, tye, name_z, tzs, tze]"
    using toks by (simp add: parts_def)
  have len: "8 \<le> length parts" by (simp add: p)
  have nth: "parts ! (length parts - 8) = txs" "parts ! (length parts - 7) = txe"
    "parts ! (length parts - 5) = tys" "parts ! (length parts - 4) = tye"
    "parts ! (length parts - 2) = tzs" "parts ! (length parts - Suc 0) = tze"
    by (simp_all add: p nth_append)
  have parse: "parse_crops fname = Inr ((xs, xe), (ys, ye), (zs, ze))"
    by (simp add: parse_crops_long [OF parts_def len] nth ints and_then_Inr)
  have run: "ensemble_segment_3d env cache (model_path # others) img fname batch_size in_w out_w in_d out_d classes True
           = (cache', Inr (map (\<lambda>pred_map. crop_pred_map pred_map (zs - mz, ze - mz) (ys - mw, ye - mw)
                                               (xs - mw, xe - mw)) pred_maps))"
    by (simp add: ensemble_segment_3d_bounded [OF load seg] parse and_then_Inr mz mw)
  have zero: "in_d = out_d \<and> in_w = out_w \<Longrightarrow> mz = 0 \<and> mw = 0"
    by (simp add: mz mw)
  show ?thesis
  proof (intro conjI ballI impI)
    show "ensemble_segment_3d env cache (model_path # others) img fname batch_size in_w out_w in_d out_d classes True
           = (cache', Inr (map (\<lambda>pred_map. crop_pred_map pred_map (zs - mz, ze - mz) (ys - mw, ye - mw)
                                               (xs - mw, xe - mw)) pred_maps))"
      by (rule run)
  next
    assume "in_d = out_d \<and> in_w = out_w"
    then show "ensemble_segment_3d env cache (model_path # others) img fname batch_size in_w out_w in_d out_d classes True
              = (cache', Inr (map (\<lambda>pred_map. crop_pred_map pred_map (zs, ze) (ys, ye) (xs, xe)) pred_maps))"
      using run zero by simp
  qed (use crop_pred_map_in_range in blast)+
qed

lemma py_int_examples:
  "py_int ''0'' = Inr 0" "py_int ''1'' = Inr 1" "py_int ''2'' = Inr 2"
  by (simp_all add: py_int_def py_strip_def py_isspace_def parse_digits_def is_digit_def
        digits_val_def digit_val_def and_then_def)

lemma example_single_map:
  obtains m where "segment_3d example_env (centre_cnn 0 1) example_image 3 (1, 3, 3) (1, 1, 1) = Inr [m]"
    and "vd m = 1" and "vh m = 2" and "vw m = 2"
proof -
  from example_segment_3d obtain maps where
    seg: "segment_3d example_env (centre_cnn 0 1) example_image 3 (1, 3, 3) (1, 1, 1) = Inr maps"
    and len: "length maps = 1" and shp: "\<forall>m \<in> set maps. vol_shape m = (1, 2, 2)"
    by blast
  from len obtain m where m: "maps = [m]"
    by (cases maps) auto
  with shp have "vol_shape m = (1, 2, 2)" by simp
  then have "vd m = 1" "vh m = 2" "vw m = 2" by (simp_all add: vol_shape_def)
  with seg m show thesis by (intro that [of m]) simp_all
qed

theorem ensemble_segment_3d_bounded_crop_witness:
  "map_sum id (map vol_shape)
     (snd (ensemble_segment_3d example_env None [''models/000001_1600000000.pkl''] example_image
             ''scan_x_10_y_20_z_5_pad_x_1_2_y_2_1_z_0_0.nii.gz'' 3 3 1 1 1 [''Foreground''] True))
   = Inr [(1, 1, 1)]"
proof -
  obtain m where seg: "segment_3d example_env (centre_cnn 0 1) example_image 3 (1, 3, 3) (1, 1, 1) = Inr [m]"
    and dims: "vd m = 1" "vh m = 2" "vw m = 2"
    by (rule example_single_map)
  have toks: "str_split CHR ''_'' (str_replace ''.nii.gz'' [] ''scan_x_10_y_20_z_5_pad_x_1_2_y_2_1_z_0_0.nii.gz'')
                = [''scan'', ''x'', ''10'', ''y'', ''20'', ''z'', ''5'', ''pad'', ''x'']
                  @ [''1'', ''2'', ''y'', ''2'', ''1'', ''z'', ''0'', ''0'']"
    by simp
  note crop = ensemble_segment_3d_bounded_crop [OF example_load_model seg toks
      py_int_examples(2) py_int_examples(3) py_int_examples(3) py_int_examples(2)
      py_int_examples(1) py_int_examples(1) refl refl, of "[]"]
  from crop have run: "snd (ensemble_segment_3d example_env None [''models/000001_1600000000.pkl''] example_image
             ''scan_x_10_y_20_z_5_pad_x_1_2_y_2_1_z_0_0.nii.gz'' 3 3 1 1 1 [''Foreground''] True)
        = Inr [crop_pred_map m (0, 0) (1, 0) (0, 1)]"
    by simp
  from crop dims have "vol_shape (crop_pred_map m (0, 0) (1, 0) (0, 1)) = (1, 1, 1)"
    by simp
  with run show ?thesis by simp
qed




text \<open>
  Claim C9. For an unbounded volume with even margins: when \<open>pad_3d\<close>, called with half
  the width margin and half the depth margin, returns a volume larger by these amounts
  on both sides of each axis, and segmentation of the padded volume goes through (the
  padded volume is at least as large as the input patch, the planner's coordinates are
  in bounds, the batch size is positive, the network has at least one class, and
  reconstruction returns an array of the shape it is asked for), the function returns
  the maps of the padded volume, one per class, each with the shape of the original
  image.
\<close>

theorem ensemble_segment_3d_unbounded_shape:
  assumes load: "load_model env cache model_path classes = (cache', Inr cnn)"
    and even: "even (in_d - out_d)" "even (in_w - out_w)"
    and pad: "pad_3d env img ((in_w - out_w) div 2) ((in_d - out_d) div 2) = Inr padded"
    and padded: "vol_shape padded = (int (vd img) + 2 * ((in_d - out_d) div 2),
                                     int (vh img) + 2 * ((in_w - out_w) div 2),
                                     int (vw img) + 2 * ((in_w - out_w) div 2))"
    and sizes: "in_d \<le> int (vd padded)" "in_w \<le> int (vh padded)" "in_w \<le> int (vw padded)"
    and plan: "get_coords_3d env (int (vd padded) - (in_d - out_d), int (vh padded) - (in_w - out_w),
                                  int (vw padded) - (in_w - out_w)) (out_d, out_w, out_w) = Inr coords"
    and ne: "coords \<noteq> []"
    and fits: "\<forall>c \<in> set coords. in_bounds padded (in_d, in_w, in_w) c"
    and bs: "0 < batch_size"
    and net: "\<forall>batch. t_batch (cnn batch) = length batch \<and> t_chan (cnn batch) = n_chan"
    and classes: "2 \<le> n_chan"
    and recon: "\<forall>t. \<exists>m. reconstruct_from_tiles env t coords
                          (int (vd padded) - (in_d - out_d), int (vh padded) - (in_w - out_w),
                           int (vw padded) - (in_w - out_w)) = Inr m \<and>
                        vol_shape m = (int (vd padded) - (in_d - out_d), int (vh padded) - (in_w - out_w),
                                       int (vw padded) - (in_w - out_w))"
  shows "\<exists>maps. ensemble_segment_3d env cache (model_path # others) img fname batch_size in_w out_w in_d out_d
                   classes False = (cache', Inr maps) \<and>
                segment_3d env cnn padded batch_size (in_d, in_w, in_w) (out_d, out_w, out_w) = Inr maps \<and>
                length maps = n_chan div 2 \<and>
                (\<forall>m \<in> set maps. vol_shape m = vol_shape img)"
proof -
  have same: "(int (vd padded) - (in_d - out_d), int (vh padded) - (in_w - out_w),
               int (vw padded) - (in_w - out_w)) = vol_shape img"
    using padded even by (auto simp: vol_shape_def)
  from segment_3d_returns [OF sizes refl plan ne fits bs net recon]
  obtain maps where seg: "segment_3d env cnn padded batch_size (in_d, in_w, in_w) (out_d, out_w, out_w) = Inr maps"
    and len: "length maps = n_chan div 2"
    and shp: "\<forall>m \<in> set maps. vol_shape m = vol_shape img"
    unfolding same by blast
  have "0 < length maps" using len classes by simp
  then have first: "py_getitem maps 0 = Inr (maps ! 0)" "maps ! 0 \<in> set maps"
    by (simp_all add: py_getitem_def)
  then have ok: "vol_shape (maps ! 0) = vol_shape img" using shp by blast
  have "ensemble_segment_3d env cache (model_path # others) img fname batch_size in_w out_w in_d out_d
           classes False = (cache', Inr maps)"
    using load pad seg first(1) ok
    by (simp add: ensemble_segment_3d_def py_getitem_def and_then_Inr Let_def)
  with seg len shp show ?thesis by blast
qed

lemma example_plan_4:
  "plan_coords (1, 4, 4) (1, 1, 1)
     = Inr [(0, 0, 0), (1, 0, 0), (2, 0, 0), (3, 0, 0), (0, 1, 0), (1, 1, 0), (2, 1, 0), (3, 1, 0),
            (0, 2, 0), (1, 2, 0), (2, 2, 0), (3, 2, 0), (0, 3, 0), (1, 3, 0), (2, 3, 0), (3, 3, 0)]"
  by (simp add: plan_coords_def tile_starts_def upt_rec)

theorem ensemble_segment_3d_unbounded_shape_witness:
  "map_sum id (map vol_shape)
     (snd (ensemble_segment_3d example_env None [''models/000001_1600000000.pkl''] example_image
             ''scan.nii.gz'' 3 3 1 1 1 [''Foreground''] False))
   = Inr [(1, 4, 4)]"
proof -
  define padded :: "int vol" where
    "padded = \<lparr>vd = 1, vh = 6, vw = 6,
               vox = (\<lambda>z y x. vox example_image (reflect_index 1 (int z - 0)) (reflect_index 4 (int y - 1))
                                  (reflect_index 4 (int x - 1)))\<rparr>"
  let ?coords = "[(0, 0, 0), (1, 0, 0), (2, 0, 0), (3, 0, 0), (0, 1, 0), (1, 1, 0), (2, 1, 0), (3, 1, 0),
            (0, 2, 0), (1, 2, 0), (2, 2, 0), (3, 2, 0), (0, 3, 0), (1, 3, 0), (2, 3, 0), (3, 3, 0)] :: coord list"
  have pad: "pad_3d example_env example_image ((3 - 1) div 2) ((1 - 1) div 2) = Inr padded"
    by (simp add: example_env_def reflect_pad_3d_def example_image_def padded_def)
  have dims: "vd padded = 1" "vh padded = 6" "vw padded = 6"
    by (simp_all add: padded_def)
  have shp: "vol_shape padded = (int (vd example_image) + 2 * ((1 - 1) div 2),
                                 int (vh example_image) + 2 * ((3 - 1) div 2),
                                 int (vw example_image) + 2 * ((3 - 1) div 2))"
    by (simp add: vol_shape_def dims example_image_def)
  have plan: "get_coords_3d example_env (int (vd padded) - (1 - 1), int (vh padded) - (3 - 1),
                                  int (vw padded) - (3 - 1)) (1, 1, 1) = Inr ?coords"
    by (simp add: dims example_env_def example_plan_4)
  have fits: "\<forall>c \<in> set ?coords. in_bounds padded (1, 3, 3) c"
    by (simp add: in_bounds_def dims)
  have net: "\<forall>batch. t_batch (centre_cnn 0 1 batch) = length batch \<and> t_chan (centre_cnn 0 1 batch) = 2"
    by (simp add: centre_cnn_def)
  have recon: "\<forall>t. \<exists>m. reconstruct_from_tiles example_env t ?coords
                          (int (vd padded) - (1 - 1), int (vh padded) - (3 - 1), int (vw padded) - (3 - 1)) = Inr m \<and>
                        vol_shape m = (int (vd padded) - (1 - 1), int (vh padded) - (3 - 1), int (vw padded) - (3 - 1))"
    by (simp add: dims example_env_def scatter_tiles_def vol_shape_def)
  from ensemble_segment_3d_unbounded_shape [OF example_load_model _ _ pad shp _ _ _ plan _ fits _ net _ recon,
      of 3 "[]" "''scan.nii.gz''"]
  obtain maps where run: "ensemble_segment_3d example_env None [''models/000001_1600000000.pkl''] example_image
             ''scan.nii.gz'' 3 3 1 1 1 [''Foreground''] False
           = (Some (''models/000001_1600000000.pkl'', centre_cnn 0 1), Inr maps)"
    and len: "length maps = 2 div 2"
    and all: "\<forall>m \<in> set maps. vol_shape m = vol_shape example_image"
    by (auto simp: dims)
  from len obtain m where m: "maps = [m]" by (cases maps) auto
  with all have "vol_shape m = (1, 4, 4)" by (simp add: vol_shape_def example_image_def)
  with run m show ?thesis by simp
qed

end
